theory Spec2Isabelle
  imports
    Complex_Main
    "HOL-Library.Char_ord"
    "HOL-Library.List_Lexorder"
    "HOL-Library.Product_Lexorder"
    "HOL-Library.Multiset"
begin

section \<open>Host-language values\<close>

text \<open>
  The views read loosely typed request payloads. A payload value is a JSON value as the
  framework's parser hands it to the view: \<open>None\<close>, a \<open>bool\<close>, an \<open>int\<close>, a
  \<open>float\<close>, a \<open>str\<close>, a \<open>list\<close> or a \<open>dict\<close>. Floating-point numbers are kept
  abstract (the type parameter \<open>'f\<close>); what the views need of them is collected in the
  record \<open>py_ops\<close> below: \<open>float\<close> of an \<open>int\<close> and of a \<open>str\<close>, \<open>int\<close> of a
  \<open>float\<close> (each \<open>None\<close> where the interpreter raises), the test against zero that
  truthiness makes, and \<open>==\<close> between two floats. A \<open>str\<close> is a \<open>string\<close>, each
  \<open>char\<close> read as one code point below 256.
\<close>

datatype 'f json =
    JNull
  | JBool bool
  | JInt int
  | JFloat 'f
  | JStr string
  | JList "'f json list"
  | JDict "(string \<times> 'f json) list"

record 'f py_ops =
  float_of_int :: "int \<Rightarrow> 'f option"
  float_of_str :: "string \<Rightarrow> 'f option"
  int_of_float :: "'f \<Rightarrow> int option"
  float_is_zero :: "'f \<Rightarrow> bool"
  float_eq :: "'f \<Rightarrow> 'f \<Rightarrow> bool"

text \<open>\<open>str.isspace\<close> on the code points below 256.\<close>

definition is_space :: "char \<Rightarrow> bool" where
  "is_space c =
     (let n = (of_char c :: nat)
      in (9 \<le> n \<and> n \<le> 13) \<or> (28 \<le> n \<and> n \<le> 32) \<or> n = 133 \<or> n = 160)"

text \<open>\<open>str.strip()\<close>: leading and trailing whitespace removed.\<close>

definition str_strip :: "string \<Rightarrow> string" where
  "str_strip s = rev (dropWhile is_space (rev (dropWhile is_space s)))"

text \<open>
  \<open>str.lower()\<close> on the code points below 256: the ASCII capitals and the Latin-1
  capitals (U+00C0 to U+00DE without the multiplication sign) move up by 32.
\<close>

definition lower_char :: "char \<Rightarrow> char" where
  "lower_char c =
     (let n = (of_char c :: nat)
      in if (65 \<le> n \<and> n \<le> 90) \<or> (192 \<le> n \<and> n \<le> 222 \<and> n \<noteq> 215)
         then char_of (n + 32) else c)"

definition str_lower :: "string \<Rightarrow> string" where
  "str_lower s = map lower_char s"

text \<open>Truthiness, as \<open>if v\<close> and \<open>not v\<close> read it.\<close>

fun truthy :: "'f py_ops \<Rightarrow> 'f json \<Rightarrow> bool" where
  "truthy ops JNull = False"
| "truthy ops (JBool b) = b"
| "truthy ops (JInt i) = (i \<noteq> 0)"
| "truthy ops (JFloat f) = (\<not> float_is_zero ops f)"
| "truthy ops (JStr s) = (s \<noteq> [])"
| "truthy ops (JList xs) = (xs \<noteq> [])"
| "truthy ops (JDict kvs) = (kvs \<noteq> [])"

text \<open>
  \<open>int(s)\<close> for a string. The interpreter first turns every non-ASCII whitespace
  character into a space and then skips the whitespace of C's \<open>isspace\<close> on both
  sides: of the code points below 256 these are 9 to 13, 32, 133 and 160 (not 28 to 31,
  which \<open>str.strip\<close> removes). One sign is allowed, then decimal digits, with single
  underscores between digits. A literal of more than \<open>int_max_str_digits\<close> digits
  (4300, the interpreter's default) is refused. \<open>None\<close> is \<open>ValueError\<close>.
\<close>

definition is_int_space :: "char \<Rightarrow> bool" where
  "is_int_space c =
     (let n = (of_char c :: nat)
      in (9 \<le> n \<and> n \<le> 13) \<or> n = 32 \<or> n = 133 \<or> n = 160)"

definition int_strip :: "string \<Rightarrow> string" where
  "int_strip s = rev (dropWhile is_int_space (rev (dropWhile is_int_space s)))"

definition is_digit :: "char \<Rightarrow> bool" where
  "is_digit c = (let n = (of_char c :: nat) in 48 \<le> n \<and> n \<le> 57)"

definition digit_val :: "char \<Rightarrow> int" where
  "digit_val c = int (of_char c) - 48"

definition int_max_str_digits :: nat where
  "int_max_str_digits = 4300"

fun digits_value :: "int \<Rightarrow> bool \<Rightarrow> string \<Rightarrow> int option" where
  "digits_value acc after_digit [] = (if after_digit then Some acc else None)"
| "digits_value acc after_digit (c # cs) =
     (if is_digit c then digits_value (acc * 10 + digit_val c) True cs
      else if c = CHR ''_'' \<and> after_digit \<and> cs \<noteq> [] \<and> is_digit (hd cs)
        then digits_value acc False cs
      else None)"

definition literal_value :: "string \<Rightarrow> int option" where
  "literal_value ds =
     (if length (filter is_digit ds) > int_max_str_digits then None
      else digits_value 0 False ds)"

definition int_of_str :: "string \<Rightarrow> int option" where
  "int_of_str s =
     (case int_strip s of
        [] \<Rightarrow> None
      | c # cs \<Rightarrow>
          if c = CHR ''-'' then map_option uminus (literal_value cs)
          else if c = CHR ''+'' then literal_value cs
          else literal_value (c # cs))"

text \<open>\<open>int(v)\<close>; \<open>None\<close> stands for any exception it raises.\<close>

fun py_int :: "'f py_ops \<Rightarrow> 'f json \<Rightarrow> int option" where
  "py_int ops (JBool b) = Some (if b then 1 else 0)"
| "py_int ops (JInt i) = Some i"
| "py_int ops (JFloat f) = int_of_float ops f"
| "py_int ops (JStr s) = int_of_str s"
| "py_int ops JNull = None"
| "py_int ops (JList xs) = None"
| "py_int ops (JDict kvs) = None"

text \<open>\<open>float(v)\<close>; \<open>None\<close> stands for any exception it raises.\<close>

fun py_float :: "'f py_ops \<Rightarrow> 'f json \<Rightarrow> 'f option" where
  "py_float ops (JFloat f) = Some f"
| "py_float ops (JBool b) = float_of_int ops (if b then 1 else 0)"
| "py_float ops (JInt i) = float_of_int ops i"
| "py_float ops (JStr s) = float_of_str ops s"
| "py_float ops JNull = None"
| "py_float ops (JList xs) = None"
| "py_float ops (JDict kvs) = None"

section \<open>Coercion helpers of the listing views\<close>

text \<open>
  \<open>to_bool\<close> and \<open>to_float_or_none\<close> are nested helpers of
  \<open>ListingCreateRawView.post\<close> and, with the same text, of
  \<open>ListingUpdateRawView.patch\<close>.
\<close>

definition truthy_tokens :: "string set" where
  "truthy_tokens = {''1'', ''true'', ''yes'', ''on''}"

fun to_bool :: "'f json \<Rightarrow> bool" where
  "to_bool (JBool b) = b"
| "to_bool (JStr s) = (str_lower (str_strip s) \<in> truthy_tokens)"
| "to_bool v = False"

definition to_float_or_none :: "'f py_ops \<Rightarrow> 'f json \<Rightarrow> 'f option" where
  "to_float_or_none ops v =
     (if v = JNull \<or> v = JStr [] then None
      else case py_float ops v of Some f \<Rightarrow> Some f | None \<Rightarrow> None)"

text \<open>The value a helper returned, as a payload value again.\<close>

definition float_value :: "'f option \<Rightarrow> 'f json" where
  "float_value r = (case r of None \<Rightarrow> JNull | Some f \<Rightarrow> JFloat f)"

text \<open>
  Python's \<open>==\<close> between two results of \<open>to_float_or_none\<close>, each \<open>None\<close> or a
  float.
\<close>

definition result_eq :: "'f py_ops \<Rightarrow> 'f option \<Rightarrow> 'f option \<Rightarrow> bool" where
  "result_eq ops a b =
     (case a of
        None \<Rightarrow> b = None
      | Some f \<Rightarrow> (case b of None \<Rightarrow> False | Some g \<Rightarrow> float_eq ops f g))"

text \<open>
  A small instance of the float primitives for evaluating the views on concrete inputs:
  floats as rationals, with the one decimal literal the examples use. It agrees with the
  interpreter on the inputs the examples give it.
\<close>

definition demo_ops :: "rat py_ops" where
  "demo_ops =
     \<lparr> float_of_int = (\<lambda>i. if \<bar>i\<bar> < 2 ^ 1024 then Some (of_int i) else None),
       float_of_str = (\<lambda>s. if s = ''150.5'' then Some (301 / 2)
                            else map_option of_int (int_of_str s)),
       int_of_float = (\<lambda>q. Some (if q < 0 then \<lceil>q\<rceil> else \<lfloor>q\<rfloor>)),
       float_is_zero = (\<lambda>q. q = 0),
       float_eq = (\<lambda>p q. p = q) \<rparr>"

text \<open>
  A second instance with the float that is not a number: \<open>float("nan")\<close> gives it,
  it converts to no integer, and \<open>==\<close> with it is false, also with itself.
\<close>

datatype demo_float = Finite rat | NaN

definition nan_ops :: "demo_float py_ops" where
  "nan_ops =
     \<lparr> float_of_int = (\<lambda>i. if \<bar>i\<bar> < 2 ^ 1024 then Some (Finite (of_int i)) else None),
       float_of_str = (\<lambda>s. if s = ''nan'' then Some NaN
                            else map_option (\<lambda>i. Finite (of_int i)) (int_of_str s)),
       int_of_float = (\<lambda>f. case f of
                               Finite q \<Rightarrow> Some (if q < 0 then \<lceil>q\<rceil> else \<lfloor>q\<rfloor>)
                             | NaN \<Rightarrow> None),
       float_is_zero = (\<lambda>f. f = Finite 0),
       float_eq = (\<lambda>a b. case a of
                             Finite p \<Rightarrow> (case b of Finite q \<Rightarrow> p = q | NaN \<Rightarrow> False)
                           | NaN \<Rightarrow> False) \<rparr>"

section \<open>Taxonomy: data model\<close>

text \<open>
  The tables are lists of rows. A category row has the fields the views read; the
  image field is the URL of the image when one is set. An attribute row is declared at
  the category \<open>attr_category_id\<close>.
\<close>

record category =
  cid :: int
  parent_id :: "int option"
  name :: string
  name_ru :: "string option"
  name_uz :: "string option"
  slug :: string
  icon :: string
  icon_image :: "string option"
  is_leaf :: bool
  order :: int

datatype attr_type = Text | Number | Boolean | Choice

record attribute =
  attr_id :: int
  attr_category_id :: int
  attr_key :: string
  attr_type :: attr_type
  attr_label :: string
  attr_options :: "string list"
  attr_required :: bool

datatype error = DoesNotExist | TypeError | ValidationError string

datatype 'a response = Response (body: 'a) (status: nat)

record request =
  query_params :: "string \<rightharpoonup> string"
  accept_language :: "string option"


text \<open>\<open>Category.objects.get(pk=pk)\<close>; \<open>None\<close> is \<open>Category.DoesNotExist\<close>.\<close>

definition get_category :: "category list \<Rightarrow> int \<Rightarrow> category option" where
  "get_category cats pk = find (\<lambda>c. cid c = pk) cats"

text \<open>
  \<open>cur.parent\<close>: \<open>None\<close> without a parent id, the parent row otherwise; a parent
  id that names no row raises.
\<close>

definition parent :: "category list \<Rightarrow> category \<Rightarrow> error + category option" where
  "parent cats c =
     (case parent_id c of
        None \<Rightarrow> Inr None
      | Some p \<Rightarrow>
          (case get_category cats p of
             None \<Rightarrow> Inl DoesNotExist
           | Some pc \<Rightarrow> Inr (Some pc)))"

section \<open>Taxonomy: attribute schema of a category\<close>

text \<open>
  The loop of \<open>CategoryAttributesView.get\<close>:
  \<^verbatim>\<open>while cur is not None: ids.append(cur.id); cur = cur.parent\<close>.
  The result is \<open>None\<close> when the loop never ends.
\<close>

partial_function (option) ancestor_walk ::
  "category list \<Rightarrow> category option \<Rightarrow> int list \<Rightarrow> (error + int list) option" where
  "ancestor_walk cats cur ids =
     (case cur of
        None \<Rightarrow> Some (Inr ids)
      | Some c \<Rightarrow>
          (case parent cats c of
             Inl e \<Rightarrow> Some (Inl e)
           | Inr p \<Rightarrow> ancestor_walk cats p (ids @ [cid c])))"

declare ancestor_walk.simps [code]

text \<open>
  \<open>CategoryAttributesView.get\<close>. The body is the list of attribute rows the query set
  yields, in its order (\<open>AttributeSerializer\<close> renders each row; rows with equal keys
  are kept in table order here, the database leaves their order open).
\<close>

definition category_attributes_get ::
  "category list \<Rightarrow> attribute list \<Rightarrow> request \<Rightarrow> int
     \<Rightarrow> (error + attribute list response) option" where
  "category_attributes_get cats attrs request pk =
     (case get_category cats pk of
        None \<Rightarrow> Some (Inr (Response [] 200))
      | Some cat \<Rightarrow>
          (case ancestor_walk cats (Some cat) [] of
             None \<Rightarrow> None
           | Some (Inl e) \<Rightarrow> Some (Inl e)
           | Some (Inr ids) \<Rightarrow>
               Some (Inr (Response
                 (sort_key attr_key (filter (\<lambda>a. attr_category_id a \<in> set ids) attrs))
                 200))))"

text \<open>The parent links of a table, as pairs (child id, parent id).\<close>

definition parent_rel :: "category list \<Rightarrow> (int \<times> int) set" where
  "parent_rel cats = {(cid c, p) | c p. c \<in> set cats \<and> parent_id c = Some p}"

text \<open>
  A list of ids is a parent chain: each id is followed by the id of its parent, and
  the last row has no parent.
\<close>

fun parent_chain :: "category list \<Rightarrow> int list \<Rightarrow> bool" where
  "parent_chain cats [] = False"
| "parent_chain cats [i] =
     (case get_category cats i of None \<Rightarrow> False | Some c \<Rightarrow> parent_id c = None)"
| "parent_chain cats (i # j # js) =
     (case get_category cats i of
        None \<Rightarrow> False
      | Some c \<Rightarrow> parent_id c = Some j \<and> parent_chain cats (j # js))"

section \<open>Taxonomy: category tree\<close>










text \<open>Running a state-changing step over a list; it stops when a step does not return.\<close>

primrec mfold :: "('a \<Rightarrow> 's \<Rightarrow> 's option) \<Rightarrow> 'a list \<Rightarrow> 's \<Rightarrow> 's option" where
  "mfold f [] s = Some s"
| "mfold f (x # xs) s = Option.bind (f x s) (mfold f xs)"

primrec mmap :: "('a \<Rightarrow> 'b option) \<Rightarrow> 'a list \<Rightarrow> 'b list option" where
  "mmap f [] = Some []"
| "mmap f (x # xs) =
     Option.bind (f x) (\<lambda>y. Option.bind (mmap f xs) (\<lambda>ys. Some (y # ys)))"

lemma mfold_mono [partial_function_mono]:
  assumes "\<And>x s. mono_option (\<lambda>f. B f x s)"
  shows "mono_option (\<lambda>f. mfold (B f) xs s)"
proof (induction xs arbitrary: s)
  case Nil
  show ?case by (simp add: option.const_mono)
next
  case (Cons x xs)
  show ?case
    unfolding mfold.simps
    by (rule bind_mono [OF assms]) (rule Cons.IH)
qed

lemma mmap_mono [partial_function_mono]:
  assumes "\<And>x. mono_option (\<lambda>f. B f x)"
  shows "mono_option (\<lambda>f. mmap (B f) xs)"
proof (induction xs)
  case Nil
  show ?case by (simp add: option.const_mono)
next
  case (Cons x xs)
  show ?case
    unfolding mmap.simps
    by (intro bind_mono assms Cons.IH option.const_mono)
qed







section \<open>Taxonomy: the shape of an answered tree\<close>







section \<open>Taxonomy: notions used in the proofs about the tree\<close>









section \<open>Listings: data model\<close>

text \<open>
  A listing row holds the fields the two raw views assign, with the values as the views
  assign them. \<open>Listing.Condition\<close>, \<open>Listing.DealType\<close> and \<open>Listing.SellerType\<close>
  are declared with the model, which is not among the sources: their keys and the three
  default members are the parameter \<open>listing_choices\<close>; the model's defaults for the
  fields a view does not pass are the parameter \<open>defaults\<close> of the create view.
\<close>

record 'f listing =
  lid :: int
  user_id :: int
  title :: "'f json"
  description :: "'f json"
  price_amount :: 'f
  price_currency :: "'f json"
  is_price_negotiable :: bool
  condition :: "'f json"
  deal_type :: "'f json"
  seller_type :: "'f json"
  category_id :: int
  location_id :: int
  lat :: "'f option"
  lon :: "'f option"
  contact_phone_masked :: string
  contact_email :: "'f json"
  contact_name :: "'f json"
  contact_phone :: "'f json"

record listing_choices =
  condition_choices :: "string list"
  condition_USED :: string
  deal_type_choices :: "string list"
  deal_type_SELL :: string
  seller_type_choices :: "string list"
  seller_type_PERSON :: string

record user =
  uid :: int
  username :: string
  profile_phone_e164 :: "string option"

text \<open>
  The stored state: the ids of the category and location rows, the listing rows, the key
  sequence of the listing table, and the attribute values of all listings, which only
  \<open>_save_attributes\<close> touches (their representation \<open>'v\<close> is left open).
\<close>

record ('f, 'v) db =
  category_ids :: "int list"
  location_ids :: "int list"
  listings :: "'f listing list"
  next_listing_id :: int
  attribute_values :: 'v

datatype message = Msg string | InvalidAllowed "string list"

datatype 'f body = Detail string | FieldError string message | ListingOut "'f listing"

text \<open>A view returns a response or lets an exception escape.\<close>

datatype 'f outcome = Returned "'f body response" | Raised error

text \<open>
  \<open>ListingCreateSerializer._save_attributes\<close> is not among the sources. It is a
  parameter of both views: given the listing and the submitted list it changes the
  stored attribute values, and either returns or raises.
\<close>

type_synonym ('f, 'v) save_attributes =
  "'f listing \<Rightarrow> 'f json list \<Rightarrow> 'v \<Rightarrow> error option \<times> 'v"

text \<open>\<open>data.get(k)\<close> and \<open>data.get(k, d)\<close>.\<close>

definition data_get :: "(string \<rightharpoonup> 'f json) \<Rightarrow> string \<Rightarrow> 'f json" where
  "data_get data k = (case data k of None \<Rightarrow> JNull | Some v \<Rightarrow> v)"

definition data_get_default :: "(string \<rightharpoonup> 'f json) \<Rightarrow> string \<Rightarrow> 'f json \<Rightarrow> 'f json" where
  "data_get_default data k d = (case data k of None \<Rightarrow> d | Some v \<Rightarrow> v)"

text \<open>
  \<open>v in dict(choices)\<close>, the keys being strings: a list or a dict is unhashable and
  raises \<open>TypeError\<close>; any other value that is not a string is no key.
\<close>

fun in_choices :: "string list \<Rightarrow> 'f json \<Rightarrow> error + bool" where
  "in_choices cs (JStr s) = Inr (s \<in> set cs)"
| "in_choices cs (JList xs) = Inl TypeError"
| "in_choices cs (JDict kvs) = Inl TypeError"
| "in_choices cs v = Inr False"

text \<open>Sequencing with early exit: \<open>Inl\<close> is a \<open>return\<close> or an escaping exception.\<close>

definition and_then :: "'e + 'a \<Rightarrow> ('a \<Rightarrow> 'e + 'b) \<Rightarrow> 'e + 'b" where
  "and_then r f = (case r of Inl e \<Rightarrow> Inl e | Inr a \<Rightarrow> f a)"

definition bad_request :: "string \<Rightarrow> message \<Rightarrow> 'f outcome" where
  "bad_request field msg = Returned (Response (FieldError field msg) 400)"

text \<open>
  The check of one enumerated field:
  \<^verbatim>\<open>if v not in dict(choices): return Response({field: f"Invalid. Allowed: ..."}, status=400)\<close>.
\<close>

definition check_choice :: "string \<Rightarrow> string list \<Rightarrow> 'f json \<Rightarrow> 'f outcome + unit" where
  "check_choice field cs v =
     (case in_choices cs v of
        Inl e \<Rightarrow> Inl (Raised e)
      | Inr ok \<Rightarrow> if ok then Inr () else Inl (bad_request field (InvalidAllowed cs)))"

section \<open>Listings: create\<close>

text \<open>The detail message of a request without title, category or location.\<close>

definition quoted :: "string \<Rightarrow> string" where
  "quoted s = CHR 0x27 # s @ [CHR 0x27]"

definition required_message :: string where
  "required_message =
     quoted ''title'' @ '', '' @ quoted ''category'' @ '', and '' @ quoted ''location''
       @ '' are required.''"

text \<open>
  \<open>ListingCreateRawView.post\<close> up to the three enumeration checks: every request that
  fails a check leaves here, before anything is written. A request that passes yields the
  row to create (without its key).
\<close>

definition validated_listing ::
  "'f py_ops \<Rightarrow> listing_choices \<Rightarrow> 'f listing \<Rightarrow> user \<Rightarrow> (string \<rightharpoonup> 'f json)
     \<Rightarrow> ('f, 'v) db \<Rightarrow> 'f outcome + 'f listing" where
  "validated_listing ops choices defaults user data d =
     (let title' = data_get data ''title'';
          category_id' = data_get data ''category'';
          location_id' = data_get data ''location''
      in if \<not> truthy ops title' \<or> \<not> truthy ops category_id' \<or> \<not> truthy ops location_id'
         then Inl (Returned (Response (Detail required_message) 400))
         else case py_int ops category_id' of
           None \<Rightarrow> Inl (bad_request ''category'' (Msg ''Must be an integer id.''))
         | Some category_id' \<Rightarrow>
         case py_int ops location_id' of
           None \<Rightarrow> Inl (bad_request ''location'' (Msg ''Must be an integer id.''))
         | Some location_id' \<Rightarrow>
         if category_id' \<notin> set (category_ids d)
           then Inl (bad_request ''category'' (Msg ''Not found.''))
         else if location_id' \<notin> set (location_ids d)
           then Inl (bad_request ''location'' (Msg ''Not found.''))
         else
         let description' = data_get_default data ''description'' (JStr []);
             price_amount' = data_get_default data ''price_amount'' (JInt 0);
             price_currency' = data_get_default data ''price_currency'' (JStr ''UZS'');
             is_price_negotiable' = data_get_default data ''is_price_negotiable'' (JBool False);
             condition' = data_get_default data ''condition'' (JStr (condition_USED choices));
             deal_type' = data_get_default data ''deal_type'' (JStr (deal_type_SELL choices));
             seller_type' =
               data_get_default data ''seller_type'' (JStr (seller_type_PERSON choices));
             lat' = data_get data ''lat'';
             lon' = data_get data ''lon''
         in case py_float ops price_amount' of
           None \<Rightarrow> Inl (bad_request ''price_amount'' (Msg ''Must be a number.''))
         | Some price_amount' \<Rightarrow>
         and_then (check_choice ''condition'' (condition_choices choices) condition') (\<lambda>_.
         and_then (check_choice ''deal_type'' (deal_type_choices choices) deal_type') (\<lambda>_.
         and_then (check_choice ''seller_type'' (seller_type_choices choices) seller_type') (\<lambda>_.
         Inr (defaults
           \<lparr> user_id := uid user,
             title := title',
             description := description',
             price_amount := price_amount',
             price_currency := price_currency',
             is_price_negotiable := to_bool is_price_negotiable',
             condition := condition',
             deal_type := deal_type',
             seller_type := seller_type',
             category_id := category_id',
             location_id := location_id',
             lat := to_float_or_none ops lat',
             lon := to_float_or_none ops lon' \<rparr>)))))"

text \<open>
  The phone stored with a new listing: the profile's number when the user has a profile
  with a non-empty number, the user name otherwise.
\<close>

definition contact_phone_of :: "user \<Rightarrow> string" where
  "contact_phone_of user =
     (case profile_phone_e164 user of
        None \<Rightarrow> username user
      | Some phone \<Rightarrow> if phone \<noteq> [] then phone else username user)"

text \<open>
  The row as it stands after \<open>Listing.objects.create(...)\<close> and
  \<open>listing.save(update_fields=["contact_phone_masked"])\<close>.
\<close>

definition created_row :: "('f, 'v) db \<Rightarrow> user \<Rightarrow> 'f listing \<Rightarrow> 'f listing" where
  "created_row d user row =
     row \<lparr> lid := next_listing_id d, contact_phone_masked := contact_phone_of user \<rparr>"

text \<open>
  \<open>ListingCreateRawView.post\<close>. The view opens no transaction: each write is applied to
  the stored state when it is made. After the row is written, a non-empty attribute list
  is handed to \<open>_save_attributes\<close>; what that raises escapes the view.
\<close>

definition post ::
  "'f py_ops \<Rightarrow> listing_choices \<Rightarrow> 'f listing \<Rightarrow> ('f, 'v) save_attributes \<Rightarrow> user
     \<Rightarrow> (string \<rightharpoonup> 'f json) \<Rightarrow> ('f, 'v) db \<Rightarrow> 'f outcome \<times> ('f, 'v) db" where
  "post ops choices defaults save_attributes user data d =
     (case validated_listing ops choices defaults user data d of
        Inl out \<Rightarrow> (out, d)
      | Inr row \<Rightarrow>
          let listing = created_row d user row;
              d1 = d \<lparr> listings := listings d @ [listing],
                       next_listing_id := next_listing_id d + 1 \<rparr>;
              created = Returned (Response (ListingOut listing) 201)
          in case data_get_default data ''attributes'' (JList []) of
               JList attributes \<Rightarrow>
                 if attributes \<noteq> [] then
                   (case save_attributes listing attributes (attribute_values d1) of
                      (Some e, v) \<Rightarrow> (Raised e, d1 \<lparr> attribute_values := v \<rparr>)
                    | (None, v) \<Rightarrow> (created, d1 \<lparr> attribute_values := v \<rparr>))
                 else (created, d1)
             | _ \<Rightarrow> (created, d1))"

section \<open>Listings: update\<close>

text \<open>\<open>Listing.objects.get(pk=pk, user=request.user)\<close>.\<close>

definition get_listing :: "('f, 'v) db \<Rightarrow> int \<Rightarrow> user \<Rightarrow> 'f listing option" where
  "get_listing d pk user = find (\<lambda>l. lid l = pk \<and> user_id l = uid user) (listings d)"

text \<open>\<open>listing.save()\<close>: the row with the listing's key is replaced.\<close>

definition save_listing :: "'f listing \<Rightarrow> ('f, 'v) db \<Rightarrow> ('f, 'v) db" where
  "save_listing l d = d \<lparr> listings := map (\<lambda>r. if lid r = lid l then l else r) (listings d) \<rparr>"

text \<open>
  The checks of \<open>ListingUpdateRawView.patch\<close> before any field is assigned: the title,
  then the category and the location when given. The result is the two ids, \<open>None\<close>
  for one that was not given.
\<close>

definition validate_id ::
  "'f py_ops \<Rightarrow> string \<Rightarrow> int list \<Rightarrow> 'f json \<Rightarrow> 'f outcome + int option" where
  "validate_id ops field ids v =
     (if v \<noteq> JNull then
        (case py_int ops v of
           None \<Rightarrow> Inl (bad_request field (Msg ''Must be an integer id.''))
         | Some i \<Rightarrow>
             if i \<notin> set ids then Inl (bad_request field (Msg ''Not found.''))
             else Inr (Some i))
      else Inr None)"

definition validate_patch ::
  "'f py_ops \<Rightarrow> (string \<rightharpoonup> 'f json) \<Rightarrow> ('f, 'v) db \<Rightarrow> 'f outcome + (int option \<times> int option)" where
  "validate_patch ops data d =
     (let title' = data_get data ''title''
      in if title' \<noteq> JNull \<and> \<not> truthy ops title'
         then Inl (bad_request ''title'' (Msg ''Title cannot be empty.''))
         else
           and_then (validate_id ops ''category'' (category_ids d) (data_get data ''category''))
             (\<lambda>category_id'.
           and_then (validate_id ops ''location'' (location_ids d) (data_get data ''location''))
             (\<lambda>location_id'. Inr (category_id', location_id'))))"

text \<open>
  The assignments of \<open>patch\<close>, one definition for each \<open>if\<close> statement of the block
  "Update basic fields", in the order of the source. Four of them can leave the view.
\<close>

definition set_title :: "(string \<rightharpoonup> 'f json) \<Rightarrow> 'f listing \<Rightarrow> 'f listing" where
  "set_title data l =
     (if data_get data ''title'' \<noteq> JNull then l \<lparr> title := data_get data ''title'' \<rparr> else l)"

definition set_description :: "(string \<rightharpoonup> 'f json) \<Rightarrow> 'f listing \<Rightarrow> 'f listing" where
  "set_description data l =
     (if data ''description'' \<noteq> None
      then l \<lparr> description := data_get_default data ''description'' (JStr []) \<rparr> else l)"

definition set_price_amount ::
  "'f py_ops \<Rightarrow> (string \<rightharpoonup> 'f json) \<Rightarrow> 'f listing \<Rightarrow> 'f outcome + 'f listing" where
  "set_price_amount ops data l =
     (if data ''price_amount'' \<noteq> None then
        (case py_float ops (data_get_default data ''price_amount'' (JInt 0)) of
           None \<Rightarrow> Inl (bad_request ''price_amount'' (Msg ''Must be a number.''))
         | Some f \<Rightarrow> Inr (l \<lparr> price_amount := f \<rparr>))
      else Inr l)"

definition set_price_currency :: "(string \<rightharpoonup> 'f json) \<Rightarrow> 'f listing \<Rightarrow> 'f listing" where
  "set_price_currency data l =
     (if data ''price_currency'' \<noteq> None
      then l \<lparr> price_currency := data_get_default data ''price_currency'' (JStr ''UZS'') \<rparr>
      else l)"

definition set_is_price_negotiable :: "(string \<rightharpoonup> 'f json) \<Rightarrow> 'f listing \<Rightarrow> 'f listing" where
  "set_is_price_negotiable data l =
     (if data ''is_price_negotiable'' \<noteq> None
      then l \<lparr> is_price_negotiable := to_bool (data_get data ''is_price_negotiable'') \<rparr>
      else l)"

definition set_condition ::
  "listing_choices \<Rightarrow> (string \<rightharpoonup> 'f json) \<Rightarrow> 'f listing \<Rightarrow> 'f outcome + 'f listing" where
  "set_condition choices data l =
     (if data ''condition'' \<noteq> None then
        and_then (check_choice ''condition'' (condition_choices choices) (data_get data ''condition''))
          (\<lambda>_. Inr (l \<lparr> condition := data_get data ''condition'' \<rparr>))
      else Inr l)"

definition set_deal_type ::
  "listing_choices \<Rightarrow> (string \<rightharpoonup> 'f json) \<Rightarrow> 'f listing \<Rightarrow> 'f outcome + 'f listing" where
  "set_deal_type choices data l =
     (if data ''deal_type'' \<noteq> None then
        and_then (check_choice ''deal_type'' (deal_type_choices choices) (data_get data ''deal_type''))
          (\<lambda>_. Inr (l \<lparr> deal_type := data_get data ''deal_type'' \<rparr>))
      else Inr l)"

definition set_seller_type ::
  "listing_choices \<Rightarrow> (string \<rightharpoonup> 'f json) \<Rightarrow> 'f listing \<Rightarrow> 'f outcome + 'f listing" where
  "set_seller_type choices data l =
     (if data ''seller_type'' \<noteq> None then
        and_then
          (check_choice ''seller_type'' (seller_type_choices choices) (data_get data ''seller_type''))
          (\<lambda>_. Inr (l \<lparr> seller_type := data_get data ''seller_type'' \<rparr>))
      else Inr l)"

definition set_category_id :: "int option \<Rightarrow> 'f listing \<Rightarrow> 'f listing" where
  "set_category_id category_id' l =
     (case category_id' of None \<Rightarrow> l | Some i \<Rightarrow> l \<lparr> category_id := i \<rparr>)"

definition set_location_id :: "int option \<Rightarrow> 'f listing \<Rightarrow> 'f listing" where
  "set_location_id location_id' l =
     (case location_id' of None \<Rightarrow> l | Some i \<Rightarrow> l \<lparr> location_id := i \<rparr>)"

definition set_lat :: "'f py_ops \<Rightarrow> (string \<rightharpoonup> 'f json) \<Rightarrow> 'f listing \<Rightarrow> 'f listing" where
  "set_lat ops data l =
     (if data ''lat'' \<noteq> None then l \<lparr> lat := to_float_or_none ops (data_get data ''lat'') \<rparr>
      else l)"

definition set_lon :: "'f py_ops \<Rightarrow> (string \<rightharpoonup> 'f json) \<Rightarrow> 'f listing \<Rightarrow> 'f listing" where
  "set_lon ops data l =
     (if data ''lon'' \<noteq> None then l \<lparr> lon := to_float_or_none ops (data_get data ''lon'') \<rparr>
      else l)"

text \<open>
  The three contact fields:
  \<^verbatim>\<open>listing.contact_email = contact_email if contact_email is not None else listing.contact_email\<close>.
\<close>

definition set_contacts :: "(string \<rightharpoonup> 'f json) \<Rightarrow> 'f listing \<Rightarrow> 'f listing" where
  "set_contacts data l =
     l \<lparr> contact_email :=
           (if data_get data ''contact_email'' \<noteq> JNull then data_get data ''contact_email''
            else contact_email l),
         contact_name :=
           (if data_get data ''contact_name'' \<noteq> JNull then data_get data ''contact_name''
            else contact_name l),
         contact_phone :=
           (if data_get data ''contact_phone'' \<noteq> JNull then data_get data ''contact_phone''
            else contact_phone l) \<rparr>"

definition update_fields ::
  "'f py_ops \<Rightarrow> listing_choices \<Rightarrow> (string \<rightharpoonup> 'f json) \<Rightarrow> int option \<Rightarrow> int option
     \<Rightarrow> 'f listing \<Rightarrow> 'f outcome + 'f listing" where
  "update_fields ops choices data category_id' location_id' l =
     and_then (set_price_amount ops data (set_description data (set_title data l))) (\<lambda>l.
     and_then (set_condition choices data
                 (set_is_price_negotiable data (set_price_currency data l))) (\<lambda>l.
     and_then (set_deal_type choices data l) (\<lambda>l.
     and_then (set_seller_type choices data l) (\<lambda>l.
     Inr (set_contacts data
            (set_lon ops data (set_lat ops data
               (set_location_id location_id' (set_category_id category_id' l)))))))))"

text \<open>
  \<open>ListingUpdateRawView.patch\<close>. Nothing is written before \<open>listing.save()\<close>; an
  attribute list, if one is given (an empty one too), is handed to \<open>_save_attributes\<close>
  after it.
\<close>

definition patch ::
  "'f py_ops \<Rightarrow> listing_choices \<Rightarrow> ('f, 'v) save_attributes \<Rightarrow> user \<Rightarrow> int
     \<Rightarrow> (string \<rightharpoonup> 'f json) \<Rightarrow> ('f, 'v) db \<Rightarrow> 'f outcome \<times> ('f, 'v) db" where
  "patch ops choices save_attributes user pk data d =
     (case get_listing d pk user of
        None \<Rightarrow> (Returned (Response (Detail ''Not found'') 404), d)
      | Some listing \<Rightarrow>
          (case and_then (validate_patch ops data d)
                  (\<lambda>(category_id', location_id').
                     update_fields ops choices data category_id' location_id' listing) of
             Inl out \<Rightarrow> (out, d)
           | Inr listing \<Rightarrow>
               let d1 = save_listing listing d;
                   updated = Returned (Response (ListingOut listing) 200)
               in case data_get data ''attributes'' of
                    JList attributes \<Rightarrow>
                      (case save_attributes listing attributes (attribute_values d1) of
                         (Some e, v) \<Rightarrow> (Raised e, d1 \<lparr> attribute_values := v \<rparr>)
                       | (None, v) \<Rightarrow> (updated, d1 \<lparr> attribute_values := v \<rparr>))
                  | _ \<Rightarrow> (updated, d1)))"

section \<open>Tables used for evaluation\<close>

text \<open>Every parent id of the table names a row of the table.\<close>

definition fk_closed :: "category list \<Rightarrow> bool" where
  "fk_closed cats =
     list_all (\<lambda>c. case parent_id c of None \<Rightarrow> True | Some p \<Rightarrow> get_category cats p \<noteq> None) cats"

definition mk_category :: "int \<Rightarrow> int option \<Rightarrow> string \<Rightarrow> int \<Rightarrow> category" where
  "mk_category i p nm k =
     \<lparr> cid = i, parent_id = p, name = nm, name_ru = None, name_uz = None, slug = nm,
       icon = [], icon_image = None, is_leaf = False, order = k \<rparr>"

definition mk_attribute ::
  "int \<Rightarrow> int \<Rightarrow> string \<Rightarrow> attr_type \<Rightarrow> string list \<Rightarrow> bool \<Rightarrow> attribute" where
  "mk_attribute i c k t opts req =
     \<lparr> attr_id = i, attr_category_id = c, attr_key = k, attr_type = t, attr_label = k,
       attr_options = opts, attr_required = req \<rparr>"

definition ex_request :: request where
  "ex_request = \<lparr> query_params = Map.empty, accept_language = None \<rparr>"

text \<open>A chain of three categories; \<open>color\<close> is declared at the root and again at its child.\<close>

definition ex_cats :: "category list" where
  "ex_cats = [mk_category 1 None ''root'' 0, mk_category 2 (Some 1) ''mid'' 0,
              mk_category 3 (Some 2) ''leaf'' 0]"

definition ex_attrs :: "attribute list" where
  "ex_attrs = [mk_attribute 1 1 ''color'' Choice [''red'', ''blue''] False,
               mk_attribute 2 2 ''color'' Text [] False]"




section \<open>Listings: values used for evaluation\<close>

text \<open>
  Modelled from the spec: \<open>ListingCreateSerializer._save_attributes\<close>
  (listings/serializers.py is not among the sources), for a listing whose category has an
  empty resolved schema. A submitted pair whose key is absent from the schema is rejected
  with a \<open>ValidationError\<close> naming the key; with an empty schema that is the first
  pair of any list. Nothing is written.
\<close>

definition pair_key :: "'f json \<Rightarrow> string" where
  "pair_key a =
     (case a of
        JDict kvs \<Rightarrow> (case map_of kvs ''key'' of Some (JStr k) \<Rightarrow> k | _ \<Rightarrow> [])
      | _ \<Rightarrow> [])"

definition save_attributes_empty_schema ::
  "('f, (int \<times> string \<times> 'f json) list) save_attributes" where
  "save_attributes_empty_schema l attributes v =
     (case attributes of
        [] \<Rightarrow> (None, v)
      | a # _ \<Rightarrow> (Some (ValidationError (pair_key a)), v))"

definition ex_choices :: listing_choices where
  "ex_choices =
     \<lparr> condition_choices = [''new'', ''used''], condition_USED = ''used'',
       deal_type_choices = [''sell'', ''exchange''], deal_type_SELL = ''sell'',
       seller_type_choices = [''person'', ''business''], seller_type_PERSON = ''person'' \<rparr>"

definition ex_user :: user where
  "ex_user = \<lparr> uid = 7, username = ''+998901234567'', profile_phone_e164 = None \<rparr>"

definition ex_defaults :: "rat listing" where
  "ex_defaults =
     \<lparr> lid = 0, user_id = 0, title = JStr [], description = JStr [], price_amount = 0,
       price_currency = JStr ''UZS'', is_price_negotiable = False, condition = JStr ''used'',
       deal_type = JStr ''sell'', seller_type = JStr ''person'', category_id = 0,
       location_id = 0, lat = None, lon = None, contact_phone_masked = [],
       contact_email = JStr [], contact_name = JStr [], contact_phone = JStr [] \<rparr>"

text \<open>
  A store with three categories, one location and no listing; the row the create view
  writes there for the user above and the title "Bike"; the store with that row and one
  attribute value.
\<close>

definition ex_db :: "(rat, (int \<times> string \<times> rat json) list) db" where
  "ex_db =
     \<lparr> category_ids = [1, 2, 3], location_ids = [1], listings = [], next_listing_id = 1,
       attribute_values = [] \<rparr>"

definition ex_row :: "rat listing" where
  "ex_row = ex_defaults
     \<lparr> lid := 1, user_id := 7, title := JStr ''Bike'', category_id := 3, location_id := 1,
       contact_phone_masked := ''+998901234567'' \<rparr>"

definition ex_db1 :: "(rat, (int \<times> string \<times> rat json) list) db" where
  "ex_db1 = ex_db \<lparr> listings := [ex_row], next_listing_id := 2,
                     attribute_values := [(1, ''color'', JStr ''red'')] \<rparr>"

definition ex_data :: "string \<rightharpoonup> rat json" where
  "ex_data = [''title'' \<mapsto> JStr ''Bike'', ''category'' \<mapsto> JInt 3, ''location'' \<mapsto> JInt 1,
       ''attributes'' \<mapsto> JList [JDict [(''key'', JStr ''color''), (''value'', JStr ''red'')]]]"



section \<open>Listings: what an update retains\<close>

text \<open>
  What an update promises about one row: the key, the owner and the masked phone stay,
  and so does every field whose key is not in the payload.
\<close>

definition retains_absent :: "(string \<rightharpoonup> 'f json) \<Rightarrow> 'f listing \<Rightarrow> 'f listing \<Rightarrow> bool" where
  "retains_absent data r r' \<longleftrightarrow>
     lid r' = lid r \<and> user_id r' = user_id r
     \<and> contact_phone_masked r' = contact_phone_masked r
     \<and> (data ''title'' = None \<longrightarrow> title r' = title r)
     \<and> (data ''description'' = None \<longrightarrow> description r' = description r)
     \<and> (data ''price_amount'' = None \<longrightarrow> price_amount r' = price_amount r)
     \<and> (data ''price_currency'' = None \<longrightarrow> price_currency r' = price_currency r)
     \<and> (data ''is_price_negotiable'' = None \<longrightarrow> is_price_negotiable r' = is_price_negotiable r)
     \<and> (data ''condition'' = None \<longrightarrow> condition r' = condition r)
     \<and> (data ''deal_type'' = None \<longrightarrow> deal_type r' = deal_type r)
     \<and> (data ''seller_type'' = None \<longrightarrow> seller_type r' = seller_type r)
     \<and> (data ''category'' = None \<longrightarrow> category_id r' = category_id r)
     \<and> (data ''location'' = None \<longrightarrow> location_id r' = location_id r)
     \<and> (data ''lat'' = None \<longrightarrow> lat r' = lat r)
     \<and> (data ''lon'' = None \<longrightarrow> lon r' = lon r)
     \<and> (data ''contact_email'' = None \<longrightarrow> contact_email r' = contact_email r)
     \<and> (data ''contact_name'' = None \<longrightarrow> contact_name r' = contact_name r)
     \<and> (data ''contact_phone'' = None \<longrightarrow> contact_phone r' = contact_phone r)"

section \<open>Boolean coercion\<close>

text \<open>
  C7. \<open>to_bool\<close> is a total function into the booleans (no branch raises): a boolean
  passes through unchanged, a string is true exactly when its stripped, lower-cased form
  is one of "1", "true", "yes", "on", and every other value gives false.
\<close>

theorem to_bool_total:
  "to_bool (JBool b :: 'f json) = b
   \<and> to_bool (JStr s :: 'f json) =
       (str_lower (str_strip s) = ''1'' \<or> str_lower (str_strip s) = ''true''
        \<or> str_lower (str_strip s) = ''yes'' \<or> str_lower (str_strip s) = ''on'')
   \<and> to_bool (JNull :: 'f json) = False
   \<and> to_bool (JInt i :: 'f json) = False
   \<and> to_bool (JFloat f :: 'f json) = False
   \<and> to_bool (JList xs :: 'f json) = False
   \<and> to_bool (JDict kvs :: 'f json) = False"
  by (simp add: truthy_tokens_def)

section \<open>Parent chains\<close>

lemma get_category_Some:
  "get_category cats pk = Some c \<Longrightarrow> c \<in> set cats \<and> cid c = pk"
  unfolding get_category_def by (induction cats) (auto split: if_splits)


lemma get_category_distinct:
  "distinct (map cid cats) \<Longrightarrow> c \<in> set cats \<Longrightarrow> get_category cats (cid c) = Some c"
  unfolding get_category_def by (induction cats) (auto simp: rev_image_eqI)


lemma finite_parent_rel: "finite (parent_rel cats)"
proof -
  have "parent_rel cats \<subseteq> (\<lambda>c. (cid c, the (parent_id c))) ` set cats"
    unfolding parent_rel_def by force
  then show ?thesis by (rule finite_subset) simp
qed

lemma parent_rel_Image:
  assumes pk: "distinct (map cid cats)" and c: "c \<in> set cats"
  shows "parent_rel cats `` {cid c} = (case parent_id c of None \<Rightarrow> {} | Some p \<Rightarrow> {p})"
proof -
  have "c' = c" if "c' \<in> set cats" "cid c' = cid c" for c'
    using pk c that by (metis distinct_map inj_onD)
  then show ?thesis
    unfolding parent_rel_def using c by (auto split: option.splits)
qed

lemma rtrancl_Image_step: "r\<^sup>* `` {x} = insert x (r\<^sup>* `` (r `` {x}))"
  by (auto elim: converse_rtranclE intro: converse_rtrancl_into_rtrancl)

lemma walk_chain:
  assumes pk: "distinct (map cid cats)" and ac: "acyclic (parent_rel cats)"
  shows "c \<in> set cats \<Longrightarrow>
     \<exists>r. ancestor_walk cats (Some c) acc = Some r \<and>
       (r = Inl DoesNotExist \<and> \<not> fk_closed cats \<or>
        (\<exists>ch. r = Inr (acc @ ch) \<and> hd ch = cid c \<and> parent_chain cats ch \<and>
              set ch = (parent_rel cats)\<^sup>* `` {cid c} \<and> distinct ch))"
proof -
  let ?R = "parent_rel cats"
  let ?good = "\<lambda>c acc r. r = Inl DoesNotExist \<and> \<not> fk_closed cats \<or>
        (\<exists>ch. r = Inr (acc @ ch) \<and> hd ch = cid c \<and> parent_chain cats ch \<and>
              set ch = ?R\<^sup>* `` {cid c} \<and> distinct ch)"
  have wf: "wf (?R\<inverse>)"
    using finite_parent_rel ac by (rule finite_acyclic_wf_converse)
  have main: "\<forall>c acc. c \<in> set cats \<and> cid c = x \<longrightarrow>
      (\<exists>r. ancestor_walk cats (Some c) acc = Some r \<and> ?good c acc r)" for x
    using wf
  proof (induction x rule: wf_induct_rule)
    case (less x)
    show ?case
    proof (intro allI impI, elim conjE)
      fix c acc
      assume c: "c \<in> set cats" and x: "cid c = x"
      have getc: "get_category cats x = Some c"
        using get_category_distinct [OF pk c] x by simp
      show "\<exists>r. ancestor_walk cats (Some c) acc = Some r \<and> ?good c acc r"
      proof (cases "parent_id c")
        case None
        have w: "ancestor_walk cats (Some c) acc = Some (Inr (acc @ [x]))"
          by (subst ancestor_walk.simps, simp add: parent_def None,
              subst ancestor_walk.simps, simp add: x)
        have "?R `` {x} = {}"
          using parent_rel_Image [OF pk c] None x by simp
        then have "?R\<^sup>* `` {x} = {x}"
          by (subst rtrancl_Image_step) simp
        then show ?thesis
          using w getc None x by auto
      next
        case (Some p)
        note par = Some
        show ?thesis
        proof (cases "get_category cats p")
          case None
          have w: "ancestor_walk cats (Some c) acc = Some (Inl DoesNotExist)"
            by (subst ancestor_walk.simps) (simp add: parent_def par None)
          have "\<not> fk_closed cats"
            unfolding fk_closed_def list_all_iff using c par None by force
          with w show ?thesis by simp
        next
          case (Some pc)
          then have pc: "pc \<in> set cats" "cid pc = p"
            using get_category_Some by blast+
          have step: "ancestor_walk cats (Some c) acc = ancestor_walk cats (Some pc) (acc @ [x])"
            by (subst ancestor_walk.simps) (simp add: parent_def par Some x)
          have xp: "(x, p) \<in> ?R"
            unfolding parent_rel_def using c x par by auto
          then have "(p, x) \<in> ?R\<inverse>" by simp
          from less.IH [OF this] pc
          obtain r where r: "ancestor_walk cats (Some pc) (acc @ [x]) = Some r"
            and good: "?good pc (acc @ [x]) r"
            by blast
          from good show ?thesis
          proof
            assume "r = Inl DoesNotExist \<and> \<not> fk_closed cats"
            with step r show ?thesis by simp
          next
            assume "\<exists>ch. r = Inr ((acc @ [x]) @ ch) \<and> hd ch = cid pc \<and> parent_chain cats ch \<and>
              set ch = ?R\<^sup>* `` {cid pc} \<and> distinct ch"
            then obtain ch where ch: "r = Inr ((acc @ [x]) @ ch)" "hd ch = p"
              "parent_chain cats ch" "set ch = ?R\<^sup>* `` {p}" "distinct ch"
              using pc by auto
            from ch(3) have "ch \<noteq> []" by auto
            with ch(2) obtain js where js: "ch = p # js" by (cases ch) auto
            have chain: "parent_chain cats (x # ch)"
              using ch(3) getc par unfolding js by simp
            have "?R `` {x} = {p}"
              using parent_rel_Image [OF pk c] par x by simp
            then have img: "?R\<^sup>* `` {x} = insert x (?R\<^sup>* `` {p})"
              by (subst rtrancl_Image_step) simp
            have "x \<notin> set ch"
            proof
              assume "x \<in> set ch"
              then have "(p, x) \<in> ?R\<^sup>*" using ch(4) by auto
              with xp have "(x, x) \<in> ?R\<^sup>+" by (rule rtrancl_into_trancl2)
              with ac show False by (auto simp: acyclic_def)
            qed
            then have "distinct (x # ch)" using ch(5) by simp
            moreover have "set (x # ch) = ?R\<^sup>* `` {cid c}"
              using img ch(4) x by simp
            moreover have "r = Inr (acc @ (x # ch))" using ch(1) by simp
            ultimately show ?thesis
              using step r chain x by (intro exI [of _ r]) (auto intro!: exI [of _ "x # ch"])
          qed
        qed
      qed
    qed
  qed
  assume "c \<in> set cats"
  with main [of "cid c"] show ?thesis by blast
qed


lemma ex_cats_distinct: "distinct (map cid ex_cats)"
  by (simp add: ex_cats_def mk_category_def)

lemma ex_cats_acyclic: "acyclic (parent_rel ex_cats)"
  by (rule acyclicI_order [where f = id])
     (auto simp: parent_rel_def ex_cats_def mk_category_def)

lemma ex_cats_fk: "fk_closed ex_cats"
  by (simp add: fk_closed_def ex_cats_def mk_category_def get_category_def)

lemma parent_chain_ids: "parent_chain cats ch \<Longrightarrow> set ch \<subseteq> cid ` set cats"
  by (induction cats ch rule: parent_chain.induct)
     (auto split: option.splits dest: get_category_Some)

text \<open>
  C9. In a table with unique ids whose parent links are acyclic, the ancestor walk from
  any row returns. It either raises \<open>DoesNotExist\<close>, at a parent id that names no row,
  or returns the ids it collected: the row's own id first, each id followed by the id of
  its parent, up to a row without parent. The loop appends one id per round, so the
  number of rounds is the length of that list: the depth of the row in its tree, and at
  most the number of rows.
\<close>

theorem ancestor_walk_terminates:
  assumes "distinct (map cid cats)" and "acyclic (parent_rel cats)" and "c \<in> set cats"
  shows "\<exists>r. ancestor_walk cats (Some c) [] = Some r \<and>
     (r = Inl DoesNotExist \<and> \<not> fk_closed cats \<or>
      (\<exists>ids. r = Inr ids \<and> hd ids = cid c \<and> parent_chain cats ids \<and> distinct ids \<and>
         length ids \<le> length cats))"
proof -
  from walk_chain [OF assms, of "[]"]
  obtain r where r: "ancestor_walk cats (Some c) [] = Some r"
    and good: "r = Inl DoesNotExist \<and> \<not> fk_closed cats \<or>
        (\<exists>ch. r = Inr ch \<and> hd ch = cid c \<and> parent_chain cats ch \<and>
              set ch = (parent_rel cats)\<^sup>* `` {cid c} \<and> distinct ch)"
    by auto
  have len: "length ch \<le> length cats" if "distinct ch" "parent_chain cats ch" for ch
  proof -
    have "length ch = card (set ch)"
      using that(1) by (simp add: distinct_card)
    also have "\<dots> \<le> card (cid ` set cats)"
      using parent_chain_ids [OF that(2)] by (simp add: card_mono)
    also have "\<dots> \<le> length cats"
      by (metis card_image_le List.finite_set card_length le_trans)
    finally show ?thesis .
  qed
  from good len r show ?thesis by blast
qed

theorem ancestor_walk_terminates_witness:
  "distinct (map cid ex_cats) \<and> acyclic (parent_rel ex_cats)
   \<and> mk_category 3 (Some 2) ''leaf'' 0 \<in> set ex_cats
   \<and> (\<exists>ids. ancestor_walk ex_cats (Some (mk_category 3 (Some 2) ''leaf'' 0)) [] = Some (Inr ids)
        \<and> hd ids = 3 \<and> parent_chain ex_cats ids \<and> distinct ids \<and> length ids \<le> 3)"
proof -
  have m: "mk_category 3 (Some 2) ''leaf'' 0 \<in> set ex_cats"
    by (simp add: ex_cats_def)
  from ancestor_walk_terminates [OF ex_cats_distinct ex_cats_acyclic m] ex_cats_fk
  have "\<exists>ids. ancestor_walk ex_cats (Some (mk_category 3 (Some 2) ''leaf'' 0)) [] = Some (Inr ids)
        \<and> hd ids = 3 \<and> parent_chain ex_cats ids \<and> distinct ids \<and> length ids \<le> 3"
    by (auto simp: ex_cats_def mk_category_def)
  with m ex_cats_distinct ex_cats_acyclic show ?thesis by blast
qed

lemma resolve_existing:
  assumes pk: "distinct (map cid cats)" and ac: "acyclic (parent_rel cats)"
    and fk: "fk_closed cats" and ex: "get_category cats pk = Some cat"
  shows "category_attributes_get cats attrs request pk =
     Some (Inr (Response
       (sort_key attr_key
          (filter (\<lambda>a. (pk, attr_category_id a) \<in> (parent_rel cats)\<^sup>*) attrs)) 200))"
proof -
  from get_category_Some [OF ex] have cat: "cat \<in> set cats" "cid cat = pk" by auto
  from walk_chain [OF pk ac cat(1), of "[]"] fk
  obtain ch where w: "ancestor_walk cats (Some cat) [] = Some (Inr ch)"
    and ch: "set ch = (parent_rel cats)\<^sup>* `` {pk}"
    using cat(2) by auto
  have "filter (\<lambda>a. attr_category_id a \<in> set ch) attrs =
        filter (\<lambda>a. (pk, attr_category_id a) \<in> (parent_rel cats)\<^sup>*) attrs"
    using ch by (intro filter_cong) auto
  then show ?thesis
    unfolding category_attributes_get_def by (simp add: ex w)
qed

text \<open>
  C1, as the code has it. For an existing category, in a table with unique ids, acyclic
  parent links and no dangling parent id, the resolved schema is sorted by key and holds
  exactly the attribute rows declared at the category or at one of its ancestors, each
  row once and unchanged. Nothing is merged: a key declared at several nodes of the chain
  appears once per declaring node.
\<close>

theorem resolved_schema_unmerged:
  assumes "distinct (map cid cats)" and "acyclic (parent_rel cats)"
    and "fk_closed cats" and "get_category cats pk = Some cat"
  shows "\<exists>schema. category_attributes_get cats attrs request pk = Some (Inr (Response schema 200))
     \<and> sorted (map attr_key schema)
     \<and> mset schema =
         filter_mset (\<lambda>a. (pk, attr_category_id a) \<in> (parent_rel cats)\<^sup>*) (mset attrs)"
  using resolve_existing [OF assms] by simp

theorem resolved_schema_unmerged_witness:
  "distinct (map cid ex_cats) \<and> acyclic (parent_rel ex_cats) \<and> fk_closed ex_cats
   \<and> get_category ex_cats 2 = Some (mk_category 2 (Some 1) ''mid'' 0)
   \<and> (\<exists>schema. category_attributes_get ex_cats ex_attrs ex_request 2
          = Some (Inr (Response schema 200))
        \<and> sorted (map attr_key schema)
        \<and> mset schema =
            filter_mset (\<lambda>a. (2, attr_category_id a) \<in> (parent_rel ex_cats)\<^sup>*) (mset ex_attrs))"
proof -
  have g: "get_category ex_cats 2 = Some (mk_category 2 (Some 1) ''mid'' 0)"
    by (simp add: get_category_def ex_cats_def mk_category_def)
  from resolved_schema_unmerged [OF ex_cats_distinct ex_cats_acyclic ex_cats_fk g]
    g ex_cats_distinct ex_cats_acyclic ex_cats_fk
  show ?thesis by blast
qed

text \<open>
  The root declares \<open>color\<close> as a choice, its child declares \<open>color\<close> again as text:
  the schema resolved for the child has the key twice, the root's declaration included.
\<close>

lemma ex_walk_2: "ancestor_walk ex_cats (Some (mk_category 2 (Some 1) ''mid'' 0)) [] = Some (Inr [2, 1])"
  by (simp add: ancestor_walk.simps parent_def get_category_def ex_cats_def mk_category_def)

theorem resolved_schema_merge_counterexample:
  "category_attributes_get ex_cats ex_attrs ex_request 2 =
     Some (Inr (Response
       [mk_attribute 1 1 ''color'' Choice [''red'', ''blue''] False,
        mk_attribute 2 2 ''color'' Text [] False] 200))
   \<and> \<not> distinct (map attr_key
         [mk_attribute 1 1 ''color'' Choice [''red'', ''blue''] False,
          mk_attribute 2 2 ''color'' Text [] False])"
proof -
  have g: "get_category ex_cats 2 = Some (mk_category 2 (Some 1) ''mid'' 0)"
    by (simp add: get_category_def ex_cats_def mk_category_def)
  show ?thesis
    unfolding category_attributes_get_def
    by (simp add: g ex_walk_2) (simp add: ex_attrs_def mk_attribute_def)
qed


text \<open>
  C2, as the code has it. For a category id that names no row the view answers with
  status 200 and an empty list (the handler of \<open>Category.DoesNotExist\<close> returns it).
  For an existing category with no attribute declared at it or at any of its ancestors
  the answer is the same: status 200 and an empty schema.
\<close>

theorem missing_category_empty_schema:
  "(get_category cats pk = None \<longrightarrow>
      category_attributes_get cats attrs request pk = Some (Inr (Response [] 200)))
   \<and> (distinct (map cid cats) \<and> acyclic (parent_rel cats) \<and> fk_closed cats
        \<and> get_category cats pk \<noteq> None
        \<and> (\<forall>a \<in> set attrs. (pk, attr_category_id a) \<notin> (parent_rel cats)\<^sup>*) \<longrightarrow>
      category_attributes_get cats attrs request pk = Some (Inr (Response [] 200)))"
proof (intro conjI impI)
  assume "get_category cats pk = None"
  then show "category_attributes_get cats attrs request pk = Some (Inr (Response [] 200))"
    by (simp add: category_attributes_get_def)
next
  assume a: "distinct (map cid cats) \<and> acyclic (parent_rel cats) \<and> fk_closed cats
        \<and> get_category cats pk \<noteq> None
        \<and> (\<forall>a \<in> set attrs. (pk, attr_category_id a) \<notin> (parent_rel cats)\<^sup>*)"
  then obtain cat where cat: "get_category cats pk = Some cat" by auto
  have "filter (\<lambda>a. (pk, attr_category_id a) \<in> (parent_rel cats)\<^sup>*) attrs = []"
    using a by (simp add: filter_empty_conv)
  with resolve_existing [OF _ _ _ cat, of attrs request] a
  show "category_attributes_get cats attrs request pk = Some (Inr (Response [] 200))"
    by simp
qed



theorem missing_category_empty_schema_witness:
  "get_category ex_cats 99 = None
   \<and> category_attributes_get ex_cats ex_attrs ex_request 99 = Some (Inr (Response [] 200))
   \<and> distinct (map cid ex_cats) \<and> acyclic (parent_rel ex_cats) \<and> fk_closed ex_cats
   \<and> get_category ex_cats 1 \<noteq> None
   \<and> (1, 3) \<notin> (parent_rel ex_cats)\<^sup>*
   \<and> category_attributes_get ex_cats [mk_attribute 3 3 ''size'' Number [] True] ex_request 1
       = Some (Inr (Response [] 200))"
proof -
  have n: "get_category ex_cats 99 = None"
    by (simp add: get_category_def ex_cats_def mk_category_def)
  have g: "get_category ex_cats 1 \<noteq> None"
    by (simp add: get_category_def ex_cats_def mk_category_def)
  have "(parent_rel ex_cats)\<^sup>* `` {1} = {1}"
    by (subst rtrancl_Image_step) (auto simp: parent_rel_def ex_cats_def mk_category_def)
  then have r: "(1, 3) \<notin> (parent_rel ex_cats)\<^sup>*"
    by (metis Image_singleton_iff numeral_eq_one_iff semiring_norm(84) singletonD)
  then have b: "\<forall>a \<in> set [mk_attribute 3 3 ''size'' Number [] True].
      (1, attr_category_id a) \<notin> (parent_rel ex_cats)\<^sup>*"
    by (simp add: mk_attribute_def)
  from missing_category_empty_schema [of ex_cats 99 ex_attrs ex_request] n
  have one: "category_attributes_get ex_cats ex_attrs ex_request 99 = Some (Inr (Response [] 200))"
    by blast
  from missing_category_empty_schema
    [of ex_cats 1 "[mk_attribute 3 3 ''size'' Number [] True]" ex_request]
    ex_cats_distinct ex_cats_acyclic ex_cats_fk g b
  have two: "category_attributes_get ex_cats [mk_attribute 3 3 ''size'' Number [] True] ex_request 1
       = Some (Inr (Response [] 200))"
    by blast
  from n one g r two ex_cats_distinct ex_cats_acyclic ex_cats_fk show ?thesis by blast
qed

text \<open>A request for category 99, which is not in the table, is answered with status 200.\<close>

theorem missing_category_counterexample:
  "get_category ex_cats 99 = None
   \<and> category_attributes_get ex_cats ex_attrs ex_request 99 = Some (Inr (Response [] 200))
   \<and> category_attributes_get ex_cats ex_attrs ex_request 99 \<noteq> Some (Inl DoesNotExist)
   \<and> status (Response ([] :: attribute list) 200) \<noteq> 404"
  by (simp add: category_attributes_get_def get_category_def ex_cats_def mk_category_def)

section \<open>The tree the full-tree branch builds\<close>

subsection \<open>The two loops\<close>



































subsection \<open>The view reads the table in its own order\<close>






subsection \<open>The answer of the view on the full-tree branch\<close>


subsection \<open>Two tables evaluated\<close>













section \<open>Assembly of the full tree\<close>




section \<open>The parent_id parameter of the categories view\<close>



section \<open>Idempotence of the coercion helpers\<close>

text \<open>
  C8, as the code has it. The helpers are functions of their argument, so they are
  deterministic, and coercing the result of a coercion gives that very value again: for
  \<open>to_bool\<close>, for \<open>to_float_or_none\<close>, and for \<open>float\<close> and \<open>int\<close> (the coercions
  of the price and of the category and location ids) wherever they succeed. Under
  Python's \<open>==\<close> the two results of \<open>to_float_or_none\<close> compare equal whenever the
  float it returns equals itself, that is, for every result but a NaN.
\<close>

theorem coercion_idempotent:
  "to_bool (JBool (to_bool x) :: 'f json) = to_bool x
   \<and> to_float_or_none ops (float_value (to_float_or_none ops x)) = to_float_or_none ops x
   \<and> (case py_float ops x of None \<Rightarrow> True
       | Some f \<Rightarrow> py_float ops (JFloat f) = py_float ops x)
   \<and> (case py_int ops x of None \<Rightarrow> True
       | Some i \<Rightarrow> py_int ops (JInt i :: 'f json) = py_int ops x)
   \<and> ((case to_float_or_none ops x of None \<Rightarrow> True | Some f \<Rightarrow> float_eq ops f f) \<longrightarrow>
        result_eq ops (to_float_or_none ops (float_value (to_float_or_none ops x)))
          (to_float_or_none ops x))"
  by (simp add: to_float_or_none_def float_value_def result_eq_def split: option.splits)

theorem coercion_idempotent_witness:
  "to_bool (JStr '' YES '' :: rat json) = True
   \<and> to_bool (JBool (to_bool (JStr '' YES '' :: rat json)) :: rat json) = True
   \<and> to_float_or_none demo_ops (JStr ''150.5'') = Some (301 / 2)
   \<and> float_eq demo_ops (301 / 2) (301 / 2)
   \<and> to_float_or_none demo_ops (float_value (to_float_or_none demo_ops (JStr ''150.5'')))
       = Some (301 / 2)
   \<and> result_eq demo_ops
        (to_float_or_none demo_ops (float_value (to_float_or_none demo_ops (JStr ''150.5''))))
        (to_float_or_none demo_ops (JStr ''150.5''))"
proof -
  have b: "to_bool (JStr '' YES '' :: rat json) = True"
    by code_simp
  have f: "to_float_or_none demo_ops (JStr ''150.5'') = Some (301 / 2)"
    by (simp add: to_float_or_none_def demo_ops_def)
  have e: "float_eq demo_ops (301 / 2) (301 / 2)"
    by (simp add: demo_ops_def)
  note yes = coercion_idempotent [of "JStr '' YES ''" demo_ops]
  note price = coercion_idempotent [of "JStr ''150.5''" demo_ops]
  from yes b have b2: "to_bool (JBool (to_bool (JStr '' YES '' :: rat json)) :: rat json) = True"
    by simp
  from price f
  have f2: "to_float_or_none demo_ops (float_value (to_float_or_none demo_ops (JStr ''150.5'')))
       = Some (301 / 2)"
    by simp
  from price have "(case to_float_or_none demo_ops (JStr ''150.5'') of None \<Rightarrow> True
        | Some f \<Rightarrow> float_eq demo_ops f f) \<longrightarrow>
      result_eq demo_ops
        (to_float_or_none demo_ops (float_value (to_float_or_none demo_ops (JStr ''150.5''))))
        (to_float_or_none demo_ops (JStr ''150.5''))"
    by blast
  moreover have "case to_float_or_none demo_ops (JStr ''150.5'') of None \<Rightarrow> True
        | Some f \<Rightarrow> float_eq demo_ops f f"
    unfolding f using e by simp
  ultimately have r: "result_eq demo_ops
        (to_float_or_none demo_ops (float_value (to_float_or_none demo_ops (JStr ''150.5''))))
        (to_float_or_none demo_ops (JStr ''150.5''))"
    by blast
  from b b2 f e f2 r show ?thesis by blast
qed

text \<open>
  The string "nan" is coerced to the float NaN, and coercing that float again gives NaN;
  the two results are not equal under \<open>==\<close>.
\<close>

theorem coercion_nan_counterexample:
  "to_float_or_none nan_ops (JStr ''nan'') = Some NaN
   \<and> to_float_or_none nan_ops (float_value (to_float_or_none nan_ops (JStr ''nan''))) = Some NaN
   \<and> \<not> result_eq nan_ops
          (to_float_or_none nan_ops (float_value (to_float_or_none nan_ops (JStr ''nan''))))
          (to_float_or_none nan_ops (JStr ''nan''))"
  by (simp add: to_float_or_none_def float_value_def result_eq_def nan_ops_def)

section \<open>Creating a listing with a missing category or location\<close>

lemma and_then_Inr: "and_then r f = Inr b \<longleftrightarrow> (\<exists>a. r = Inr a \<and> f a = Inr b)"
  by (cases r) (simp_all add: and_then_def)





section \<open>Creating a listing whose attributes are rejected\<close>

text \<open>
  C4, as the code has it. The view writes the listing row first and opens no
  transaction. When the request passes the checks, carries a non-empty attribute list and
  \<open>_save_attributes\<close> raises, the exception escapes the view and the stored state
  has the new listing row (and whatever the helper had written before it raised): the
  creation is not rolled back.
\<close>

theorem attribute_failure_keeps_listing:
  assumes "validated_listing ops choices defaults user data d = Inr row"
    and "data ''attributes'' = Some (JList attributes)" and "attributes \<noteq> []"
    and "save_attributes (created_row d user row) attributes (attribute_values d) = (Some e, v)"
  shows "post ops choices defaults save_attributes user data d =
           (Raised e,
            d \<lparr> listings := listings d @ [created_row d user row],
                next_listing_id := next_listing_id d + 1,
                attribute_values := v \<rparr>)
         \<and> created_row d user row \<in> set (listings (snd (post ops choices defaults save_attributes user data d)))"
  using assms by (simp add: post_def data_get_default_def Let_def)

lemma ex_data_validated:
  "validated_listing demo_ops ex_choices ex_defaults ex_user ex_data ex_db
   = Inr (ex_defaults \<lparr> user_id := 7, title := JStr ''Bike'', category_id := 3, location_id := 1 \<rparr>)"
  by (simp add: validated_listing_def data_get_def data_get_default_def ex_db_def
        demo_ops_def ex_choices_def check_choice_def and_then_def to_float_or_none_def
        ex_user_def ex_defaults_def ex_data_def)

lemma ex_created_row:
  "created_row ex_db ex_user
     (ex_defaults \<lparr> user_id := 7, title := JStr ''Bike'', category_id := 3, location_id := 1 \<rparr>)
   = ex_row"
  by (simp add: created_row_def ex_row_def ex_db_def contact_phone_of_def ex_user_def ex_defaults_def)

lemma ex_save_fails:
  "save_attributes_empty_schema ex_row
     [JDict [(''key'', JStr ''color''), (''value'', JStr ''red'')]] (attribute_values ex_db)
   = (Some (ValidationError ''color''), [])"
  by (simp add: save_attributes_empty_schema_def pair_key_def ex_db_def)

theorem attribute_failure_keeps_listing_witness:
  "validated_listing demo_ops ex_choices ex_defaults ex_user ex_data ex_db
     = Inr (ex_defaults \<lparr> user_id := 7, title := JStr ''Bike'', category_id := 3, location_id := 1 \<rparr>)
   \<and> ex_data ''attributes'' = Some (JList [JDict [(''key'', JStr ''color''), (''value'', JStr ''red'')]])
   \<and> [JDict [(''key'', JStr ''color''), (''value'', JStr ''red'' :: rat json)]] \<noteq> []
   \<and> save_attributes_empty_schema ex_row
        [JDict [(''key'', JStr ''color''), (''value'', JStr ''red'')]] (attribute_values ex_db)
      = (Some (ValidationError ''color''), [])
   \<and> post demo_ops ex_choices ex_defaults save_attributes_empty_schema ex_user ex_data ex_db
      = (Raised (ValidationError ''color''),
         ex_db \<lparr> listings := listings ex_db @ [ex_row],
                  next_listing_id := next_listing_id ex_db + 1,
                  attribute_values := [] \<rparr>)
   \<and> ex_row \<in> set (listings (snd (post demo_ops ex_choices ex_defaults
                      save_attributes_empty_schema ex_user ex_data ex_db)))"
proof -
  have a: "ex_data ''attributes''
      = Some (JList [JDict [(''key'', JStr ''color''), (''value'', JStr ''red'')]])"
    by (simp add: ex_data_def)
  have ne: "[JDict [(''key'', JStr ''color''), (''value'', JStr ''red'' :: rat json)]] \<noteq> []"
    by simp
  have s: "save_attributes_empty_schema
      (created_row ex_db ex_user
         (ex_defaults \<lparr> user_id := 7, title := JStr ''Bike'', category_id := 3, location_id := 1 \<rparr>))
      [JDict [(''key'', JStr ''color''), (''value'', JStr ''red'')]] (attribute_values ex_db)
      = (Some (ValidationError ''color''), [])"
    unfolding ex_created_row by (rule ex_save_fails)
  from attribute_failure_keeps_listing
    [where save_attributes = save_attributes_empty_schema, OF ex_data_validated a ne s]
    ex_data_validated a ne ex_save_fails
  show ?thesis unfolding ex_created_row by blast
qed

text \<open>
  A create request with the attribute \<open>color\<close> for a category without attributes:
  the helper rejects the key, and the store, empty before, holds the listing.
\<close>

theorem create_not_atomic_counterexample:
  "post demo_ops ex_choices ex_defaults save_attributes_empty_schema ex_user ex_data ex_db
     = (Raised (ValidationError ''color''),
        ex_db \<lparr> listings := [ex_row], next_listing_id := 2 \<rparr>)
   \<and> listings (snd (post demo_ops ex_choices ex_defaults save_attributes_empty_schema
                      ex_user ex_data ex_db)) = [ex_row]
   \<and> listings ex_db = []"
proof -
  have p: "post demo_ops ex_choices ex_defaults save_attributes_empty_schema ex_user ex_data ex_db
     = (Raised (ValidationError ''color''),
        ex_db \<lparr> listings := [ex_row], next_listing_id := 2 \<rparr>)"
    unfolding post_def ex_data_validated
    by (simp add: Let_def ex_created_row data_get_default_def ex_data_def ex_save_fails
          [unfolded ex_db_def, simplified])
       (simp add: ex_db_def save_attributes_empty_schema_def pair_key_def)
  show ?thesis
    unfolding p by (simp add: ex_db_def)
qed

section \<open>Updating a listing\<close>

subsection \<open>Each assignment changes its own field only\<close>

lemma set_title_others [simp]:
  "lid (set_title data l) = lid l"
  "user_id (set_title data l) = user_id l"
  "description (set_title data l) = description l"
  "price_amount (set_title data l) = price_amount l"
  "price_currency (set_title data l) = price_currency l"
  "is_price_negotiable (set_title data l) = is_price_negotiable l"
  "condition (set_title data l) = condition l"
  "deal_type (set_title data l) = deal_type l"
  "seller_type (set_title data l) = seller_type l"
  "category_id (set_title data l) = category_id l"
  "location_id (set_title data l) = location_id l"
  "lat (set_title data l) = lat l"
  "lon (set_title data l) = lon l"
  "contact_phone_masked (set_title data l) = contact_phone_masked l"
  "contact_email (set_title data l) = contact_email l"
  "contact_name (set_title data l) = contact_name l"
  "contact_phone (set_title data l) = contact_phone l"
  by (simp_all add: set_title_def split: option.splits)

lemma set_description_others [simp]:
  "lid (set_description data l) = lid l"
  "user_id (set_description data l) = user_id l"
  "title (set_description data l) = title l"
  "price_amount (set_description data l) = price_amount l"
  "price_currency (set_description data l) = price_currency l"
  "is_price_negotiable (set_description data l) = is_price_negotiable l"
  "condition (set_description data l) = condition l"
  "deal_type (set_description data l) = deal_type l"
  "seller_type (set_description data l) = seller_type l"
  "category_id (set_description data l) = category_id l"
  "location_id (set_description data l) = location_id l"
  "lat (set_description data l) = lat l"
  "lon (set_description data l) = lon l"
  "contact_phone_masked (set_description data l) = contact_phone_masked l"
  "contact_email (set_description data l) = contact_email l"
  "contact_name (set_description data l) = contact_name l"
  "contact_phone (set_description data l) = contact_phone l"
  by (simp_all add: set_description_def split: option.splits)

lemma set_price_currency_others [simp]:
  "lid (set_price_currency data l) = lid l"
  "user_id (set_price_currency data l) = user_id l"
  "title (set_price_currency data l) = title l"
  "description (set_price_currency data l) = description l"
  "price_amount (set_price_currency data l) = price_amount l"
  "is_price_negotiable (set_price_currency data l) = is_price_negotiable l"
  "condition (set_price_currency data l) = condition l"
  "deal_type (set_price_currency data l) = deal_type l"
  "seller_type (set_price_currency data l) = seller_type l"
  "category_id (set_price_currency data l) = category_id l"
  "location_id (set_price_currency data l) = location_id l"
  "lat (set_price_currency data l) = lat l"
  "lon (set_price_currency data l) = lon l"
  "contact_phone_masked (set_price_currency data l) = contact_phone_masked l"
  "contact_email (set_price_currency data l) = contact_email l"
  "contact_name (set_price_currency data l) = contact_name l"
  "contact_phone (set_price_currency data l) = contact_phone l"
  by (simp_all add: set_price_currency_def split: option.splits)

lemma set_is_price_negotiable_others [simp]:
  "lid (set_is_price_negotiable data l) = lid l"
  "user_id (set_is_price_negotiable data l) = user_id l"
  "title (set_is_price_negotiable data l) = title l"
  "description (set_is_price_negotiable data l) = description l"
  "price_amount (set_is_price_negotiable data l) = price_amount l"
  "price_currency (set_is_price_negotiable data l) = price_currency l"
  "condition (set_is_price_negotiable data l) = condition l"
  "deal_type (set_is_price_negotiable data l) = deal_type l"
  "seller_type (set_is_price_negotiable data l) = seller_type l"
  "category_id (set_is_price_negotiable data l) = category_id l"
  "location_id (set_is_price_negotiable data l) = location_id l"
  "lat (set_is_price_negotiable data l) = lat l"
  "lon (set_is_price_negotiable data l) = lon l"
  "contact_phone_masked (set_is_price_negotiable data l) = contact_phone_masked l"
  "contact_email (set_is_price_negotiable data l) = contact_email l"
  "contact_name (set_is_price_negotiable data l) = contact_name l"
  "contact_phone (set_is_price_negotiable data l) = contact_phone l"
  by (simp_all add: set_is_price_negotiable_def split: option.splits)

lemma set_category_id_others [simp]:
  "lid (set_category_id c l) = lid l"
  "user_id (set_category_id c l) = user_id l"
  "title (set_category_id c l) = title l"
  "description (set_category_id c l) = description l"
  "price_amount (set_category_id c l) = price_amount l"
  "price_currency (set_category_id c l) = price_currency l"
  "is_price_negotiable (set_category_id c l) = is_price_negotiable l"
  "condition (set_category_id c l) = condition l"
  "deal_type (set_category_id c l) = deal_type l"
  "seller_type (set_category_id c l) = seller_type l"
  "location_id (set_category_id c l) = location_id l"
  "lat (set_category_id c l) = lat l"
  "lon (set_category_id c l) = lon l"
  "contact_phone_masked (set_category_id c l) = contact_phone_masked l"
  "contact_email (set_category_id c l) = contact_email l"
  "contact_name (set_category_id c l) = contact_name l"
  "contact_phone (set_category_id c l) = contact_phone l"
  by (simp_all add: set_category_id_def split: option.splits)

lemma set_location_id_others [simp]:
  "lid (set_location_id c l) = lid l"
  "user_id (set_location_id c l) = user_id l"
  "title (set_location_id c l) = title l"
  "description (set_location_id c l) = description l"
  "price_amount (set_location_id c l) = price_amount l"
  "price_currency (set_location_id c l) = price_currency l"
  "is_price_negotiable (set_location_id c l) = is_price_negotiable l"
  "condition (set_location_id c l) = condition l"
  "deal_type (set_location_id c l) = deal_type l"
  "seller_type (set_location_id c l) = seller_type l"
  "category_id (set_location_id c l) = category_id l"
  "lat (set_location_id c l) = lat l"
  "lon (set_location_id c l) = lon l"
  "contact_phone_masked (set_location_id c l) = contact_phone_masked l"
  "contact_email (set_location_id c l) = contact_email l"
  "contact_name (set_location_id c l) = contact_name l"
  "contact_phone (set_location_id c l) = contact_phone l"
  by (simp_all add: set_location_id_def split: option.splits)

lemma set_lat_others [simp]:
  "lid (set_lat ops data l) = lid l"
  "user_id (set_lat ops data l) = user_id l"
  "title (set_lat ops data l) = title l"
  "description (set_lat ops data l) = description l"
  "price_amount (set_lat ops data l) = price_amount l"
  "price_currency (set_lat ops data l) = price_currency l"
  "is_price_negotiable (set_lat ops data l) = is_price_negotiable l"
  "condition (set_lat ops data l) = condition l"
  "deal_type (set_lat ops data l) = deal_type l"
  "seller_type (set_lat ops data l) = seller_type l"
  "category_id (set_lat ops data l) = category_id l"
  "location_id (set_lat ops data l) = location_id l"
  "lon (set_lat ops data l) = lon l"
  "contact_phone_masked (set_lat ops data l) = contact_phone_masked l"
  "contact_email (set_lat ops data l) = contact_email l"
  "contact_name (set_lat ops data l) = contact_name l"
  "contact_phone (set_lat ops data l) = contact_phone l"
  by (simp_all add: set_lat_def split: option.splits)

lemma set_lon_others [simp]:
  "lid (set_lon ops data l) = lid l"
  "user_id (set_lon ops data l) = user_id l"
  "title (set_lon ops data l) = title l"
  "description (set_lon ops data l) = description l"
  "price_amount (set_lon ops data l) = price_amount l"
  "price_currency (set_lon ops data l) = price_currency l"
  "is_price_negotiable (set_lon ops data l) = is_price_negotiable l"
  "condition (set_lon ops data l) = condition l"
  "deal_type (set_lon ops data l) = deal_type l"
  "seller_type (set_lon ops data l) = seller_type l"
  "category_id (set_lon ops data l) = category_id l"
  "location_id (set_lon ops data l) = location_id l"
  "lat (set_lon ops data l) = lat l"
  "contact_phone_masked (set_lon ops data l) = contact_phone_masked l"
  "contact_email (set_lon ops data l) = contact_email l"
  "contact_name (set_lon ops data l) = contact_name l"
  "contact_phone (set_lon ops data l) = contact_phone l"
  by (simp_all add: set_lon_def split: option.splits)

lemma set_contacts_others [simp]:
  "lid (set_contacts data l) = lid l"
  "user_id (set_contacts data l) = user_id l"
  "title (set_contacts data l) = title l"
  "description (set_contacts data l) = description l"
  "price_amount (set_contacts data l) = price_amount l"
  "price_currency (set_contacts data l) = price_currency l"
  "is_price_negotiable (set_contacts data l) = is_price_negotiable l"
  "condition (set_contacts data l) = condition l"
  "deal_type (set_contacts data l) = deal_type l"
  "seller_type (set_contacts data l) = seller_type l"
  "category_id (set_contacts data l) = category_id l"
  "location_id (set_contacts data l) = location_id l"
  "lat (set_contacts data l) = lat l"
  "lon (set_contacts data l) = lon l"
  "contact_phone_masked (set_contacts data l) = contact_phone_masked l"
  by (simp_all add: set_contacts_def split: option.splits)

lemma set_price_amount_others:
  assumes "set_price_amount ops data l = Inr l'"
  shows "lid l' = lid l"
    "user_id l' = user_id l"
    "title l' = title l"
    "description l' = description l"
    "price_currency l' = price_currency l"
    "is_price_negotiable l' = is_price_negotiable l"
    "condition l' = condition l"
    "deal_type l' = deal_type l"
    "seller_type l' = seller_type l"
    "category_id l' = category_id l"
    "location_id l' = location_id l"
    "lat l' = lat l"
    "lon l' = lon l"
    "contact_phone_masked l' = contact_phone_masked l"
    "contact_email l' = contact_email l"
    "contact_name l' = contact_name l"
    "contact_phone l' = contact_phone l"
  using assms
  by (auto simp: set_price_amount_def and_then_Inr check_choice_def split: if_splits option.splits)

lemma set_condition_others:
  assumes "set_condition choices data l = Inr l'"
  shows "lid l' = lid l"
    "user_id l' = user_id l"
    "title l' = title l"
    "description l' = description l"
    "price_amount l' = price_amount l"
    "price_currency l' = price_currency l"
    "is_price_negotiable l' = is_price_negotiable l"
    "deal_type l' = deal_type l"
    "seller_type l' = seller_type l"
    "category_id l' = category_id l"
    "location_id l' = location_id l"
    "lat l' = lat l"
    "lon l' = lon l"
    "contact_phone_masked l' = contact_phone_masked l"
    "contact_email l' = contact_email l"
    "contact_name l' = contact_name l"
    "contact_phone l' = contact_phone l"
  using assms
  by (auto simp: set_condition_def and_then_Inr check_choice_def split: if_splits option.splits)

lemma set_deal_type_others:
  assumes "set_deal_type choices data l = Inr l'"
  shows "lid l' = lid l"
    "user_id l' = user_id l"
    "title l' = title l"
    "description l' = description l"
    "price_amount l' = price_amount l"
    "price_currency l' = price_currency l"
    "is_price_negotiable l' = is_price_negotiable l"
    "condition l' = condition l"
    "seller_type l' = seller_type l"
    "category_id l' = category_id l"
    "location_id l' = location_id l"
    "lat l' = lat l"
    "lon l' = lon l"
    "contact_phone_masked l' = contact_phone_masked l"
    "contact_email l' = contact_email l"
    "contact_name l' = contact_name l"
    "contact_phone l' = contact_phone l"
  using assms
  by (auto simp: set_deal_type_def and_then_Inr check_choice_def split: if_splits option.splits)

lemma set_seller_type_others:
  assumes "set_seller_type choices data l = Inr l'"
  shows "lid l' = lid l"
    "user_id l' = user_id l"
    "title l' = title l"
    "description l' = description l"
    "price_amount l' = price_amount l"
    "price_currency l' = price_currency l"
    "is_price_negotiable l' = is_price_negotiable l"
    "condition l' = condition l"
    "deal_type l' = deal_type l"
    "category_id l' = category_id l"
    "location_id l' = location_id l"
    "lat l' = lat l"
    "lon l' = lon l"
    "contact_phone_masked l' = contact_phone_masked l"
    "contact_email l' = contact_email l"
    "contact_name l' = contact_name l"
    "contact_phone l' = contact_phone l"
  using assms
  by (auto simp: set_seller_type_def and_then_Inr check_choice_def split: if_splits option.splits)

subsection \<open>An assignment whose key is absent changes nothing\<close>

lemma absent_keeps [simp]:
  "data ''title'' = None \<Longrightarrow> set_title data l = l"
  "data ''description'' = None \<Longrightarrow> set_description data l = l"
  "data ''price_currency'' = None \<Longrightarrow> set_price_currency data l = l"
  "data ''is_price_negotiable'' = None \<Longrightarrow> set_is_price_negotiable data l = l"
  "set_category_id None l = l"
  "set_location_id None l = l"
  "data ''lat'' = None \<Longrightarrow> set_lat ops data l = l"
  "data ''lon'' = None \<Longrightarrow> set_lon ops data l = l"
  by (simp_all add: set_title_def set_description_def set_price_currency_def
        set_is_price_negotiable_def set_category_id_def set_location_id_def set_lat_def
        set_lon_def data_get_def)

lemma absent_keeps_contacts [simp]:
  "data ''contact_email'' = None \<Longrightarrow> contact_email (set_contacts data l) = contact_email l"
  "data ''contact_name'' = None \<Longrightarrow> contact_name (set_contacts data l) = contact_name l"
  "data ''contact_phone'' = None \<Longrightarrow> contact_phone (set_contacts data l) = contact_phone l"
  by (simp_all add: set_contacts_def data_get_def)

lemma absent_keeps_fallible:
  "set_price_amount ops data l = Inr l' \<Longrightarrow> data ''price_amount'' = None \<Longrightarrow> l' = l"
  "set_condition choices data l = Inr l' \<Longrightarrow> data ''condition'' = None \<Longrightarrow> l' = l"
  "set_deal_type choices data l = Inr l' \<Longrightarrow> data ''deal_type'' = None \<Longrightarrow> l' = l"
  "set_seller_type choices data l = Inr l' \<Longrightarrow> data ''seller_type'' = None \<Longrightarrow> l' = l"
  by (simp_all add: set_price_amount_def set_condition_def set_deal_type_def set_seller_type_def)

lemma absent_keeps_more:
  "data ''condition'' = None \<Longrightarrow> set_condition choices data l = Inr l"
  "data ''deal_type'' = None \<Longrightarrow> set_deal_type choices data l = Inr l"
  "data ''seller_type'' = None \<Longrightarrow> set_seller_type choices data l = Inr l"
  "data ''contact_email'' = None \<Longrightarrow> data ''contact_name'' = None
     \<Longrightarrow> data ''contact_phone'' = None \<Longrightarrow> set_contacts data l = l"
  by (simp_all add: set_condition_def set_deal_type_def set_seller_type_def set_contacts_def
        data_get_def)

lemma validate_patch_absent:
  assumes "validate_patch ops data d = Inr (c, l)"
  shows "(data ''category'' = None \<longrightarrow> c = None) \<and> (data ''location'' = None \<longrightarrow> l = None)"
  using assms
  by (auto simp: validate_patch_def validate_id_def and_then_Inr data_get_def Let_def
           split: if_splits option.splits)

lemma update_fields_retains:
  assumes u: "update_fields ops choices data c loc l = Inr l'"
    and c: "data ''category'' = None \<longrightarrow> c = None"
    and loc: "data ''location'' = None \<longrightarrow> loc = None"
  shows "retains_absent data l l'"
proof -
  from u obtain l1 l2 l3 l4 where
    s1: "set_price_amount ops data (set_description data (set_title data l)) = Inr l1" and
    s2: "set_condition choices data (set_is_price_negotiable data (set_price_currency data l1)) = Inr l2" and
    s3: "set_deal_type choices data l2 = Inr l3" and
    s4: "set_seller_type choices data l3 = Inr l4" and
    l': "l' = set_contacts data (set_lon ops data (set_lat ops data
               (set_location_id loc (set_category_id c l4))))"
    unfolding update_fields_def and_then_Inr by auto
  note o1 = set_price_amount_others [OF s1]
  note o2 = set_condition_others [OF s2]
  note o3 = set_deal_type_others [OF s3]
  note o4 = set_seller_type_others [OF s4]
  note a = absent_keeps_fallible(1) [OF s1] absent_keeps_fallible(2) [OF s2]
    absent_keeps_fallible(3) [OF s3] absent_keeps_fallible(4) [OF s4]
  show ?thesis
    unfolding retains_absent_def l'
    using c loc by (simp add: o1 o2 o3 o4 a)
qed

lemma retains_absent_refl: "retains_absent data r r"
  by (simp add: retains_absent_def)

subsection \<open>The view\<close>

lemma get_listing_Some:
  "get_listing d pk user = Some l \<Longrightarrow> l \<in> set (listings d) \<and> lid l = pk \<and> user_id l = uid user"
  unfolding get_listing_def by (auto simp: find_Some_iff)

lemma patch_result:
  assumes g: "get_listing d pk user = Some l"
    and v: "validate_patch ops data d = Inr (c, loc)"
    and u: "update_fields ops choices data c loc l = Inr l'"
  shows "patch ops choices save_attributes user pk data d =
     (case data_get data ''attributes'' of
        JList attributes \<Rightarrow>
          (case save_attributes l' attributes (attribute_values d) of
             (Some e, v) \<Rightarrow> (Raised e, (save_listing l' d) \<lparr> attribute_values := v \<rparr>)
           | (None, v) \<Rightarrow> (Returned (Response (ListingOut l') 200),
                            (save_listing l' d) \<lparr> attribute_values := v \<rparr>))
      | _ \<Rightarrow> (Returned (Response (ListingOut l') 200), save_listing l' d))"
proof -
  have a: "attribute_values (save_listing l' d) = attribute_values d"
    by (simp add: save_listing_def)
  show ?thesis
    unfolding patch_def g by (simp add: v u and_then_def Let_def a split: json.splits)
qed

lemma patch_saved_frame:
  assumes pk: "distinct (map lid (listings d))"
    and g: "get_listing d pk user = Some l"
    and r: "retains_absent data l l'"
  shows "list_all2 (\<lambda>r r'. retains_absent data r r' \<and> (lid r \<noteq> pk \<longrightarrow> r' = r))
           (listings d) (listings (save_listing l' d))"
proof -
  from get_listing_Some [OF g] have l: "l \<in> set (listings d)" "lid l = pk" by auto
  from r have lid: "lid l' = pk" using l by (simp add: retains_absent_def)
  have "retains_absent data x (if lid x = pk then l' else x)
        \<and> (lid x \<noteq> pk \<longrightarrow> (if lid x = pk then l' else x) = x)"
    if "x \<in> set (listings d)" for x
  proof (cases "lid x = pk")
    case True
    with pk l that have "x = l" by (metis distinct_map inj_onD)
    with True r show ?thesis by simp
  next
    case False
    then show ?thesis by (simp add: retains_absent_refl)
  qed
  then show ?thesis
    by (simp add: save_listing_def lid list_all2_map2 list_all2_same)
qed

lemma patch_frame:
  assumes pk: "distinct (map lid (listings d))"
    and p: "patch ops choices save_attributes user pk data d = (out, d')"
  shows "category_ids d' = category_ids d \<and> location_ids d' = location_ids d
     \<and> next_listing_id d' = next_listing_id d
     \<and> list_all2 (\<lambda>r r'. retains_absent data r r' \<and> (lid r \<noteq> pk \<longrightarrow> r' = r))
          (listings d) (listings d')
     \<and> (data ''attributes'' = None \<longrightarrow> attribute_values d' = attribute_values d)"
proof -
  let ?P = "\<lambda>r r'. retains_absent data r r' \<and> (lid r \<noteq> pk \<longrightarrow> r' = r)"
  have same: "list_all2 ?P (listings d) (listings d)"
    by (simp add: list_all2_same retains_absent_refl)
  show ?thesis
  proof (cases "get_listing d pk user")
    case None
    with p have "d' = d" by (simp add: patch_def)
    with same show ?thesis by simp
  next
    case (Some l)
    show ?thesis
    proof (cases "validate_patch ops data d")
      case (Inl e)
      with p Some have "d' = d" by (simp add: patch_def and_then_def)
      with same show ?thesis by simp
    next
      case (Inr cl)
      obtain c loc where cl: "cl = (c, loc)" by (cases cl)
      note v = Inr [unfolded cl]
      show ?thesis
      proof (cases "update_fields ops choices data c loc l")
        case (Inl e)
        with p Some v have "d' = d" by (simp add: patch_def and_then_def)
        with same show ?thesis by simp
      next
        case (Inr l')
        from validate_patch_absent [OF v]
        have r: "retains_absent data l l'"
          by (intro update_fields_retains [OF Inr]) auto
        note frame = patch_saved_frame [OF pk Some r]
        have d': "listings d' = listings (save_listing l' d)
            \<and> category_ids d' = category_ids d \<and> location_ids d' = location_ids d
            \<and> next_listing_id d' = next_listing_id d
            \<and> (data ''attributes'' = None \<longrightarrow> attribute_values d' = attribute_values d)"
          using p unfolding patch_result [OF Some v Inr]
          by (auto simp: save_listing_def data_get_def split: json.splits prod.splits option.splits)
        with frame show ?thesis by simp
      qed
    qed
  qed
qed

subsection \<open>A payload with the price only\<close>

lemma only_key:
  assumes dom: "dom data = {''price_amount''}"
  shows "data ''title'' = None" "data ''description'' = None" "data ''price_currency'' = None"
    "data ''is_price_negotiable'' = None" "data ''condition'' = None" "data ''deal_type'' = None"
    "data ''seller_type'' = None" "data ''category'' = None" "data ''location'' = None"
    "data ''lat'' = None" "data ''lon'' = None" "data ''contact_email'' = None"
    "data ''contact_name'' = None" "data ''contact_phone'' = None" "data ''attributes'' = None"
proof -
  have absent: "data k = None" if "k \<noteq> ''price_amount''" for k
  proof (rule ccontr)
    assume "data k \<noteq> None"
    then have "k \<in> dom data" by auto
    with dom that show False by simp
  qed
  show "data ''title'' = None" "data ''description'' = None" "data ''price_currency'' = None"
    "data ''is_price_negotiable'' = None" "data ''condition'' = None" "data ''deal_type'' = None"
    "data ''seller_type'' = None" "data ''category'' = None" "data ''location'' = None"
    "data ''lat'' = None" "data ''lon'' = None" "data ''contact_email'' = None"
    "data ''contact_name'' = None" "data ''contact_phone'' = None" "data ''attributes'' = None"
    by (rule absent, simp)+
qed

lemma price_only_validate:
  assumes dom: "dom data = {''price_amount''}"
  shows "validate_patch ops data d = Inr (None, None)"
  by (simp add: validate_patch_def validate_id_def and_then_def data_get_def only_key [OF dom])

lemma price_only_key:
  assumes dom: "dom data = {''price_amount''}"
  shows "data ''price_amount'' \<noteq> None"
proof -
  have "''price_amount'' \<in> dom data" unfolding dom by (rule singletonI)
  then show ?thesis by (rule domIff [THEN iffD1])
qed

lemma price_only_set:
  assumes k: "data ''price_amount'' \<noteq> None"
    and f: "py_float ops (data_get data ''price_amount'') = Some f"
  shows "set_price_amount ops data l = Inr (l \<lparr> price_amount := f \<rparr>)"
proof -
  from k obtain v where v: "data ''price_amount'' = Some v" by blast
  from f have "py_float ops v = Some f" by (simp add: data_get_def v)
  then show ?thesis
    by (simp add: set_price_amount_def v data_get_default_def)
qed

lemma price_only_update:
  assumes dom: "dom data = {''price_amount''}"
    and f: "py_float ops (data_get data ''price_amount'') = Some f"
  shows "update_fields ops choices data None None l = Inr (l \<lparr> price_amount := f \<rparr>)"
proof -
  note n = only_key [OF dom]
  note price = price_only_set [OF price_only_key [OF dom] f]
  have pre: "set_description data (set_title data l) = l"
    by (simp only: absent_keeps n)
  have c: "set_condition choices data
             (set_is_price_negotiable data (set_price_currency data l')) = Inr l'" for l'
    by (simp only: absent_keeps absent_keeps_more n)
  have d: "set_deal_type choices data l' = Inr l'" for l'
    by (simp only: absent_keeps_more n)
  have s: "set_seller_type choices data l' = Inr l'" for l'
    by (simp only: absent_keeps_more n)
  have t: "set_contacts data (set_lon ops data (set_lat ops data
             (set_location_id None (set_category_id None l')))) = l'" for l'
    by (simp only: absent_keeps absent_keeps_more n)
  show ?thesis
    unfolding update_fields_def pre price
    by (simp only: and_then_def sum.case c d s t)
qed

lemma patch_price_only:
  assumes dom: "dom data = {''price_amount''}"
    and g: "get_listing d pk user = Some l"
    and f: "py_float ops (data_get data ''price_amount'') = Some f"
  shows "patch ops choices save_attributes user pk data d =
     (Returned (Response (ListingOut (l \<lparr> price_amount := f \<rparr>)) 200),
      d \<lparr> listings := map (\<lambda>r. if lid r = pk then l \<lparr> price_amount := f \<rparr> else r) (listings d) \<rparr>)"
proof -
  have a: "data_get data ''attributes'' = JNull"
    by (simp only: data_get_def only_key [OF dom] option.case)
  from get_listing_Some [OF g] have "lid l = pk" by (rule conjunct2 [THEN conjunct1])
  then have s: "save_listing (l \<lparr> price_amount := f \<rparr>) d =
      d \<lparr> listings := map (\<lambda>r. if lid r = pk then l \<lparr> price_amount := f \<rparr> else r) (listings d) \<rparr>"
    by (simp add: save_listing_def)
  show ?thesis
    unfolding patch_result [OF g price_only_validate [OF dom] price_only_update [OF dom f]] a s
    by (simp only: json.case)
qed

text \<open>
  C5. Whatever \<open>patch\<close> answers, in a store with unique listing keys: the category
  and location tables and the key sequence are as before; the listing table has the same
  rows in the same places, every row other than the addressed one unchanged, and in the
  addressed row every field whose key is absent from the payload has its value from before
  the call; without an \<open>attributes\<close> key the attribute values are as before. In
  particular, for a payload with the key \<open>price_amount\<close> only, whose value \<open>float\<close>
  accepts, the answer is 200 and the store differs in the price amount of that listing
  only.
\<close>

theorem patch_partial_update:
  assumes pk: "distinct (map lid (listings d))"
    and p: "patch ops choices save_attributes user pk data d = (out, d')"
  shows "category_ids d' = category_ids d \<and> location_ids d' = location_ids d
     \<and> next_listing_id d' = next_listing_id d
     \<and> list_all2 (\<lambda>r r'. retains_absent data r r' \<and> (lid r \<noteq> pk \<longrightarrow> r' = r))
          (listings d) (listings d')
     \<and> (data ''attributes'' = None \<longrightarrow> attribute_values d' = attribute_values d)
     \<and> (\<forall>l f. dom data = {''price_amount''} \<and> get_listing d pk user = Some l
            \<and> py_float ops (data_get data ''price_amount'') = Some f \<longrightarrow>
          out = Returned (Response (ListingOut (l \<lparr> price_amount := f \<rparr>)) 200)
          \<and> d' = d \<lparr> listings :=
                 map (\<lambda>r. if lid r = pk then l \<lparr> price_amount := f \<rparr> else r) (listings d) \<rparr>)"
proof -
  have price: "out = Returned (Response (ListingOut (l \<lparr> price_amount := f \<rparr>)) 200)
          \<and> d' = d \<lparr> listings :=
                 map (\<lambda>r. if lid r = pk then l \<lparr> price_amount := f \<rparr> else r) (listings d) \<rparr>"
    if "dom data = {''price_amount''} \<and> get_listing d pk user = Some l
            \<and> py_float ops (data_get data ''price_amount'') = Some f" for l f
  proof -
    from that have "patch ops choices save_attributes user pk data d =
     (Returned (Response (ListingOut (l \<lparr> price_amount := f \<rparr>)) 200),
      d \<lparr> listings := map (\<lambda>r. if lid r = pk then l \<lparr> price_amount := f \<rparr> else r) (listings d) \<rparr>)"
      by (intro patch_price_only) blast+
    with p show ?thesis by (simp only: prod.inject)
  qed
  from patch_frame [OF pk p] price show ?thesis by blast
qed

lemma ex_get_listing: "get_listing ex_db1 1 ex_user = Some ex_row"
  by (simp add: get_listing_def ex_db1_def ex_row_def ex_user_def)

lemma ex_price: "py_float demo_ops (data_get [''price_amount'' \<mapsto> JStr ''150.5''] ''price_amount'')
    = Some (301 / 2)"
  by (simp add: data_get_def demo_ops_def)

theorem patch_partial_update_witness:
  "distinct (map lid (listings ex_db1))
   \<and> patch demo_ops ex_choices save_attributes_empty_schema ex_user 1
        [''price_amount'' \<mapsto> JStr ''150.5''] ex_db1
      = (Returned (Response (ListingOut (ex_row \<lparr> price_amount := 301 / 2 \<rparr>)) 200),
         ex_db1 \<lparr> listings := [ex_row \<lparr> price_amount := 301 / 2 \<rparr>] \<rparr>)
   \<and> list_all2 (\<lambda>r r'. retains_absent [''price_amount'' \<mapsto> JStr ''150.5''] r r'
                  \<and> (lid r \<noteq> 1 \<longrightarrow> r' = r))
        [ex_row] [ex_row \<lparr> price_amount := 301 / 2 \<rparr>]
   \<and> attribute_values (ex_db1 \<lparr> listings := [ex_row \<lparr> price_amount := 301 / 2 \<rparr>] \<rparr>)
      = [(1, ''color'', JStr ''red'')]"
proof -
  have d: "distinct (map lid (listings ex_db1))"
    by (simp add: ex_db1_def)
  have dom: "dom [''price_amount'' \<mapsto> JStr ''150.5'' :: rat json] = {''price_amount''}"
    by simp
  have p: "patch demo_ops ex_choices save_attributes_empty_schema ex_user 1
        [''price_amount'' \<mapsto> JStr ''150.5''] ex_db1
      = (Returned (Response (ListingOut (ex_row \<lparr> price_amount := 301 / 2 \<rparr>)) 200),
         ex_db1 \<lparr> listings := [ex_row \<lparr> price_amount := 301 / 2 \<rparr>] \<rparr>)"
    unfolding patch_price_only [OF dom ex_get_listing ex_price]
    by (simp add: ex_db1_def ex_row_def)
  have l: "listings ex_db1 = [ex_row]"
    "listings (ex_db1 \<lparr> listings := [ex_row \<lparr> price_amount := 301 / 2 \<rparr>] \<rparr>)
       = [ex_row \<lparr> price_amount := 301 / 2 \<rparr>]"
    by (simp_all add: ex_db1_def)
  have n: "[''price_amount'' \<mapsto> JStr ''150.5'' :: rat json] ''attributes'' = None"
    by simp
  from patch_partial_update [OF d p] n
  have "list_all2 (\<lambda>r r'. retains_absent [''price_amount'' \<mapsto> JStr ''150.5''] r r'
                  \<and> (lid r \<noteq> 1 \<longrightarrow> r' = r))
        [ex_row] [ex_row \<lparr> price_amount := 301 / 2 \<rparr>]"
    unfolding l by blast
  moreover have "attribute_values (ex_db1 \<lparr> listings := [ex_row \<lparr> price_amount := 301 / 2 \<rparr>] \<rparr>)
      = [(1, ''color'', JStr ''red'')]"
    by (simp add: ex_db1_def)
  ultimately show ?thesis using d p by blast
qed

end
